theory Spec2Isabelle
  imports Main
begin

section \<open>Values\<close>

text \<open>
  The value of the property \<^verbatim>\<open>expiresAt\<close>, which nothing forces to be a number: the property is
  missing (\<^verbatim>\<open>undefined\<close>), it is a number (epoch seconds), or it is any other value. The token
  manager applies two operations to it, \<^verbatim>\<open>!v\<close> and \<^verbatim>\<open>v - n\<close>, so a value that is not a number is
  given by its truthiness and by its conversion to a number (\<open>None\<close> is NaN): the string
  \<^verbatim>\<open>'never'\<close> is \<open>ExpiresOther True None\<close>, \<^verbatim>\<open>null\<close> is \<open>ExpiresOther False (Some 0)\<close>, the
  string \<^verbatim>\<open>'100'\<close> is \<open>ExpiresOther True (Some 100)\<close>.
\<close>

datatype expires = ExpiresMissing | ExpiresAt int | ExpiresOther bool "int option"

text \<open>
  A token as \<^verbatim>\<open>src/lib/TokenManager.ts\<close> reads it: the four properties the manager looks at.
  Each property may be missing (\<open>None\<close> is JavaScript's \<^verbatim>\<open>undefined\<close>), which is what the check in
  \<^verbatim>\<open>add\<close> is there for.
\<close>

record token =
  scopes :: "string list option"
  expiresAt :: expires
  idToken :: "string option"
  accessToken :: "string option"

text \<open>A value handed to \<^verbatim>\<open>add\<close>: a primitive, or an object with the properties above.\<close>

datatype jsvalue =
  JUndefined | JNull | JBool bool | JNum int | JStr string | JObject token

text \<open>
  An error object: \<^verbatim>\<open>name\<close>, \<^verbatim>\<open>message\<close>, \<^verbatim>\<open>errorCode\<close>, and the two properties
  \<^verbatim>\<open>tokenKey\<close> and \<^verbatim>\<open>accessToken\<close> that \<^verbatim>\<open>renew\<close> attaches to a failure.
\<close>

record err =
  err_name :: string
  err_message :: string
  errorCode :: "string option"
  tokenKey :: "string option"
  err_accessToken :: "bool option"

text \<open>
  Modelled from the spec: \<^verbatim>\<open>errors/AuthSdkError\<close> is not among the sources. The spec calls it the
  configuration (validation) error; \<^verbatim>\<open>renew\<close> recognises it by the name \<^verbatim>\<open>AuthSdkError\<close>.
\<close>

definition AuthSdkError :: "string \<Rightarrow> err" where
  "AuthSdkError msg =
     \<lparr>err_name = ''AuthSdkError'', err_message = msg, errorCode = None,
      tokenKey = None, err_accessToken = None\<rparr>"

text \<open>JavaScript truthiness of the optional properties.\<close>

definition truthy_str :: "string option \<Rightarrow> bool" where
  "truthy_str v = (case v of None \<Rightarrow> False | Some s \<Rightarrow> s \<noteq> [])"

definition truthy_expires :: "expires \<Rightarrow> bool" where
  "truthy_expires v =
     (case v of ExpiresMissing \<Rightarrow> False | ExpiresAt n \<Rightarrow> n \<noteq> 0 | ExpiresOther b _ \<Rightarrow> b)"

text \<open>The conversion to a number that \<^verbatim>\<open>expiresAt - n\<close> applies (\<open>None\<close> is NaN).\<close>

definition to_number :: "expires \<Rightarrow> int option" where
  "to_number v =
     (case v of ExpiresMissing \<Rightarrow> None | ExpiresAt n \<Rightarrow> Some n | ExpiresOther _ n \<Rightarrow> n)"

definition truthy_array :: "'a list option \<Rightarrow> bool" where
  "truthy_array v = (case v of None \<Rightarrow> False | Some _ \<Rightarrow> True)"

text \<open>
  Modelled from the spec: \<^verbatim>\<open>isIDToken\<close> and \<^verbatim>\<open>isAccessToken\<close> (\<^verbatim>\<open>./types\<close>) are not among the
  sources. The spec describes the two variant predicates as duck-typed on the presence of the
  property, as the message of \<^verbatim>\<open>add\<close> and the test \<^verbatim>\<open>!!token.accessToken\<close> of \<^verbatim>\<open>renew\<close> do.
\<close>

definition isIDToken :: "token \<Rightarrow> bool" where
  "isIDToken t = truthy_str (idToken t)"

definition isAccessToken :: "token \<Rightarrow> bool" where
  "isAccessToken t = truthy_str (accessToken t)"

section \<open>The SDK instance\<close>

text \<open>A pending expiration callback: its delay in milliseconds and the arguments it will emit.\<close>

record timeout =
  delay_ms :: int
  timeout_key :: string
  timeout_token :: token

text \<open>The auth state snapshot of \<^verbatim>\<open>src/lib/AuthStateManager.ts\<close>.\<close>

record auth_state =
  isPending :: bool
  isAuthenticated :: bool
  as_idToken :: "token option"
  as_accessToken :: "token option"

text \<open>Events published on the emitter, in the order of the calls to \<^verbatim>\<open>emit\<close>.\<close>

datatype event =
  Added string token
| Removed string
| Renewed string token token
| Expired string token
| Error err
| AuthStateChange auth_state

text \<open>
  Calls to the collaborators (\<^verbatim>\<open>token.renew\<close>, \<^verbatim>\<open>token.revoke\<close>, \<^verbatim>\<open>session.close\<close>,
  \<^verbatim>\<open>window.location\<close>) and the calls the browser methods make to the token manager, logged in
  the order they are made.
\<close>

datatype call =
  Token_renew token
| Token_revoke token
| Session_close
| Location_assign string
| Location_reload
| TokenManager_get string
| TokenManager_remove string
| TokenManager_clear

text \<open>
  The promise that \<^verbatim>\<open>renew\<close> builds on the provider's: while pending it holds the key and the
  token its handlers closed over; once settled, the error it rejected with or the value it
  resolved with (\<open>None\<close> is \<^verbatim>\<open>undefined\<close>).
\<close>

datatype renewal =
  RenewalPending string token
| RenewalSettled "err + token option"

text \<open>What \<^verbatim>\<open>renew\<close> returns: a promise of the table, or \<^verbatim>\<open>Promise.reject(e)\<close>.\<close>

datatype promise = PromiseRef nat | PromiseRejected err

text \<open>
  A cancelable promise of \<^verbatim>\<open>updateAuthState\<close>: the two flags of p-cancelable, the custom
  predicate the call read from the options, and the suspension point it waits at.
\<close>

datatype stage =
  AwaitTokens
| AwaitIsAuthenticated "token option" "token option"
| Resolved

record cancelable =
  isCanceled :: bool
  c_isPending :: bool
  has_predicate :: bool
  at_stage :: stage

text \<open>
  One SDK instance: the options, the clock, the token manager's reference object
  (\<^verbatim>\<open>tokenMgmtRef\<close>) with its storage, the shared emitter, and the auth state manager's fields.
  The promises of \<^verbatim>\<open>renew\<close> and of \<^verbatim>\<open>updateAuthState\<close> live in two tables; the identity of a
  promise is its index, so a new promise (appended) differs from every earlier one.
\<close>

record sdk_state =
  expireEarlySeconds :: int
  autoRenew :: bool
  opt_isAuthenticated :: bool
  opt_postLogoutRedirectUri :: "string option"
  clock_now :: int
  storage :: "string \<rightharpoonup> token"
  expireTimeouts :: "string \<rightharpoonup> timeout"
  renewPromise :: "string \<rightharpoonup> nat"
  renewals :: "renewal list"
  emitted :: "event list"
  calls :: "call list"
  authState :: auth_state
  updateAuthStatePromise :: "nat option"
  canceledTimes :: nat
  cancelables :: "cancelable list"

section \<open>TokenManager\<close>

definition getExpireTime :: "sdk_state \<Rightarrow> int \<Rightarrow> int" where
  "getExpireTime s expires = expires - expireEarlySeconds s"

text \<open>
  \<^verbatim>\<open>hasExpired\<close>: when \<^verbatim>\<open>expiresAt\<close> converts to NaN the subtraction is NaN and the comparison
  false.
\<close>

definition hasExpired :: "sdk_state \<Rightarrow> token \<Rightarrow> bool" where
  "hasExpired s t =
     (case to_number (expiresAt t) of
        None \<Rightarrow> False
      | Some e \<Rightarrow> getExpireTime s e \<le> clock_now s)"

text \<open>
  \<^verbatim>\<open>emitter.emit\<close>: the event is appended to the log of the shared emitter. What a subscribed
  handler does is a call of its own (\<^verbatim>\<open>updateAuthState\<close> for the handlers the auth state manager
  subscribes).
\<close>

definition emit :: "event \<Rightarrow> sdk_state \<Rightarrow> sdk_state" where
  "emit ev s = s\<lparr>emitted := emitted s @ [ev]\<rparr>"

definition emitExpired :: "string \<Rightarrow> token \<Rightarrow> sdk_state \<Rightarrow> sdk_state" where
  "emitExpired key t s = emit (Expired key t) s"

definition emitRemoved :: "string \<Rightarrow> sdk_state \<Rightarrow> sdk_state" where
  "emitRemoved key s = emit (Removed key) s"

definition emitError :: "err \<Rightarrow> sdk_state \<Rightarrow> sdk_state" where
  "emitError e s = emit (Error e) s"

definition clearExpireEventTimeout :: "string \<Rightarrow> sdk_state \<Rightarrow> sdk_state" where
  "clearExpireEventTimeout key s =
     s\<lparr>expireTimeouts := (expireTimeouts s)(key := None),
       renewPromise := (renewPromise s)(key := None)\<rparr>"

text \<open>
  \<^verbatim>\<open>clearExpireEventTimeoutAll\<close> visits the keys of \<^verbatim>\<open>expireTimeouts\<close>: every timer goes, and
  the renew promise of each key that had a timer.
\<close>

definition clearExpireEventTimeoutAll :: "sdk_state \<Rightarrow> sdk_state" where
  "clearExpireEventTimeoutAll s =
     s\<lparr>expireTimeouts := Map.empty,
       renewPromise :=
         (\<lambda>key. if expireTimeouts s key = None then renewPromise s key else None)\<rparr>"

text \<open>
  \<^verbatim>\<open>setExpireEventTimeout\<close>: when \<^verbatim>\<open>expiresAt\<close> converts to NaN the wait is NaN, which
  \<^verbatim>\<open>setTimeout\<close> takes as 0.
\<close>

definition setExpireEventTimeout :: "string \<Rightarrow> token \<Rightarrow> sdk_state \<Rightarrow> sdk_state" where
  "setExpireEventTimeout key t s =
     (let expireEventWait =
            (case to_number (expiresAt t) of
               None \<Rightarrow> 0
             | Some e \<Rightarrow> max (getExpireTime s e - clock_now s) 0 * 1000);
          s1 = clearExpireEventTimeout key s
      in s1\<lparr>expireTimeouts := (expireTimeouts s1)
               (key \<mapsto> \<lparr>delay_ms = expireEventWait, timeout_key = key, timeout_token = t\<rparr>)\<rparr>)"

definition add_message :: string where
  "add_message =
     ''Token must be an Object with scopes, expiresAt, and an idToken or accessToken properties''"

text \<open>
  \<^verbatim>\<open>add\<close> throws (\<open>Inl\<close>) before it writes anything, or stores the token and sets its timer.
  A value that is not an object (\<^verbatim>\<open>!isObject(token)\<close>) is the last case.
\<close>

definition add :: "string \<Rightarrow> jsvalue \<Rightarrow> sdk_state \<Rightarrow> (err + unit) \<times> sdk_state" where
  "add key v s =
     (case v of
        JObject t \<Rightarrow>
          if \<not> truthy_array (scopes t)
             \<or> (\<not> truthy_expires (expiresAt t) \<and> expiresAt t \<noteq> ExpiresAt 0)
             \<or> (\<not> isIDToken t \<and> \<not> isAccessToken t)
          then (Inl (AuthSdkError add_message), s)
          else (Inr (),
                setExpireEventTimeout key t (s\<lparr>storage := (storage s)(key \<mapsto> t)\<rparr>))
      | _ \<Rightarrow> (Inl (AuthSdkError add_message), s))"

definition get :: "sdk_state \<Rightarrow> string \<Rightarrow> token option" where
  "get s key = storage s key"

definition remove :: "string \<Rightarrow> sdk_state \<Rightarrow> sdk_state" where
  "remove key s =
     (let s1 = clearExpireEventTimeout key s;
          s2 = s1\<lparr>storage := (storage s1)(key := None)\<rparr>
      in emitRemoved key s2)"

definition clear :: "sdk_state \<Rightarrow> sdk_state" where
  "clear s = (clearExpireEventTimeoutAll s)\<lparr>storage := Map.empty\<rparr>"

definition lookup :: "'a list \<Rightarrow> nat \<Rightarrow> 'a option" where
  "lookup xs i = (if i < length xs then Some (xs ! i) else None)"

text \<open>
  \<^verbatim>\<open>renew\<close>, up to the return: an existing promise is returned as it is; a missing token rejects;
  otherwise the timer is cleared, the provider is called once and the chained promise is cached.
\<close>

definition renew :: "string \<Rightarrow> sdk_state \<Rightarrow> promise \<times> sdk_state" where
  "renew key s =
     (case renewPromise s key of
        Some existingPromise \<Rightarrow> (PromiseRef existingPromise, s)
      | None \<Rightarrow>
          (case get s key of
             None \<Rightarrow>
               (PromiseRejected
                  (AuthSdkError (''The tokenManager has no token for the key: '' @ key)), s)
           | Some t \<Rightarrow>
               (let s1 = clearExpireEventTimeout key s;
                    p = length (renewals s1);
                    s2 = s1\<lparr>calls := calls s1 @ [Token_renew t],
                            renewals := renewals s1 @ [RenewalPending key t]\<rparr>
                in (PromiseRef p, s2\<lparr>renewPromise := (renewPromise s2)(key \<mapsto> p)\<rparr>))))"

text \<open>The three handlers chained on the provider's promise, in the order they run.\<close>

definition renew_then :: "string \<Rightarrow> token \<Rightarrow> sdk_state \<Rightarrow> (err + token option) \<times> sdk_state" where
  "renew_then key freshToken s =
     (case get s key of
        None \<Rightarrow> (Inr None, s)
      | Some oldToken \<Rightarrow>
          (case add key (JObject freshToken) s of
             (Inl e, s1) \<Rightarrow> (Inl e, s1)
           | (Inr _, s1) \<Rightarrow>
               (Inr (Some freshToken), emit (Renewed key freshToken oldToken) s1)))"

definition renew_catch ::
  "string \<Rightarrow> token \<Rightarrow> err \<Rightarrow> sdk_state \<Rightarrow> (err + token option) \<times> sdk_state" where
  "renew_catch key t e s =
     (if err_name e = ''OAuthError'' \<or> err_name e = ''AuthSdkError''
      then (let s1 = remove key s;
                e1 = e\<lparr>tokenKey := Some key,
                       err_accessToken := Some (truthy_str (accessToken t))\<rparr>
            in (Inl e1, emitError e1 s1))
      else (Inl e, s))"

definition renew_finally :: "string \<Rightarrow> sdk_state \<Rightarrow> sdk_state" where
  "renew_finally key s = s\<lparr>renewPromise := (renewPromise s)(key := None)\<rparr>"

text \<open>
  The provider's promise of renewal \<open>p\<close> settles with \<open>outcome\<close> (\<open>Inl\<close> a rejection, \<open>Inr\<close>
  the fresh token): \<^verbatim>\<open>then\<close> runs on a fulfilment, \<^verbatim>\<open>catch\<close> on a rejection of the provider or
  of \<^verbatim>\<open>then\<close>, \<^verbatim>\<open>finally\<close> always, and the chained promise settles with the result.
\<close>

definition renew_settle :: "nat \<Rightarrow> err + token \<Rightarrow> sdk_state \<Rightarrow> sdk_state" where
  "renew_settle p outcome s =
     (case lookup (renewals s) p of
        Some (RenewalPending key t) \<Rightarrow>
          (let (r1, s1) = (case outcome of
                             Inr freshToken \<Rightarrow> renew_then key freshToken s
                           | Inl e \<Rightarrow> (Inl e, s));
               (r2, s2) = (case r1 of
                             Inl e \<Rightarrow> renew_catch key t e s1
                           | Inr v \<Rightarrow> (Inr v, s1));
               s3 = renew_finally key s2
           in s3\<lparr>renewals := (renewals s3)[p := RenewalSettled r2]\<rparr>)
      | _ \<Rightarrow> s)"

section \<open>AuthStateManager\<close>

definition DEFAULT_AUTH_STATE :: auth_state where
  "DEFAULT_AUTH_STATE =
     \<lparr>isPending = True, isAuthenticated = False, as_idToken = None, as_accessToken = None\<rparr>"

definition MAX_PROMISE_CANCEL_TIMES :: nat where
  "MAX_PROMISE_CANCEL_TIMES = 10"

definition emitAuthStateChange :: "auth_state \<Rightarrow> sdk_state \<Rightarrow> sdk_state" where
  "emitAuthStateChange a s = emit (AuthStateChange a) (s\<lparr>authState := a\<rparr>)"

text \<open>
  \<^verbatim>\<open>cancel()\<close> of p-cancelable with the handler \<^verbatim>\<open>updateAuthState\<close> registers: nothing on a
  promise that is settled or already canceled; otherwise the handler empties the slot and
  counts the cancellation, and the promise is flagged. \<^verbatim>\<open>shouldReject\<close> is false, so the
  promise is not rejected.
\<close>

definition cancel :: "nat \<Rightarrow> sdk_state \<Rightarrow> sdk_state" where
  "cancel p s =
     (case lookup (cancelables s) p of
        None \<Rightarrow> s
      | Some c \<Rightarrow>
          if \<not> c_isPending c \<or> isCanceled c then s
          else s\<lparr>updateAuthStatePromise := None,
                 canceledTimes := canceledTimes s + 1,
                 cancelables := (cancelables s)[p := c\<lparr>isCanceled := True\<rparr>]\<rparr>)"

text \<open>\<^verbatim>\<open>resolve()\<close> of a cancelable promise.\<close>

definition resolve :: "nat \<Rightarrow> sdk_state \<Rightarrow> sdk_state" where
  "resolve p s =
     (case lookup (cancelables s) p of
        None \<Rightarrow> s
      | Some c \<Rightarrow>
          s\<lparr>cancelables := (cancelables s)[p := c\<lparr>c_isPending := False, at_stage := Resolved\<rparr>]\<rparr>)"

text \<open>
  \<^verbatim>\<open>updateAuthState\<close>, up to the return: the call is dropped at the ceiling; otherwise the
  promise in the slot is canceled, a new one is created (its executor calls \<^verbatim>\<open>_getTokens\<close>) and
  put in the slot.
\<close>

definition updateAuthState :: "sdk_state \<Rightarrow> sdk_state" where
  "updateAuthState s =
     (if updateAuthStatePromise s \<noteq> None \<and> canceledTimes s \<ge> MAX_PROMISE_CANCEL_TIMES
      then s
      else
        (let s1 = (case updateAuthStatePromise s of
                     Some p \<Rightarrow> cancel p s
                   | None \<Rightarrow> s);
             c = length (cancelables s1);
             s2 = s1\<lparr>cancelables := cancelables s1 @
                       [\<lparr>isCanceled = False, c_isPending = True,
                         has_predicate = opt_isAuthenticated s1, at_stage = AwaitTokens\<rparr>]\<rparr>
         in s2\<lparr>updateAuthStatePromise := Some c\<rparr>))"

text \<open>An expired token is demoted to null.\<close>

definition demote :: "sdk_state \<Rightarrow> token option \<Rightarrow> token option" where
  "demote s tok =
     (case tok of
        None \<Rightarrow> None
      | Some t \<Rightarrow> if hasExpired s t then None else Some t)"

text \<open>
  The first suspension point of recomputation \<open>c\<close>: \<^verbatim>\<open>_getTokens()\<close> (not among the sources)
  has resolved with the two tokens given here.
\<close>

definition getTokens_then ::
  "nat \<Rightarrow> token option \<Rightarrow> token option \<Rightarrow> sdk_state \<Rightarrow> sdk_state" where
  "getTokens_then c accessTok idTok s =
     (case lookup (cancelables s) c of
        None \<Rightarrow> s
      | Some cp \<Rightarrow>
          if at_stage cp \<noteq> AwaitTokens then s
          else if isCanceled cp then resolve c s
          else s\<lparr>cancelables := (cancelables s)
                   [c := cp\<lparr>at_stage :=
                           AwaitIsAuthenticated (demote s accessTok) (demote s idTok)\<rparr>]\<rparr>)"

text \<open>
  The second suspension point: the promise of \<^verbatim>\<open>isAuthenticated\<close> has resolved. \<open>custom\<close> is what
  the caller-supplied predicate resolved with; without one the value is the default rule's.
\<close>

definition isAuthenticated_then :: "nat \<Rightarrow> bool \<Rightarrow> sdk_state \<Rightarrow> sdk_state" where
  "isAuthenticated_then c custom s =
     (case lookup (cancelables s) c of
        None \<Rightarrow> s
      | Some cp \<Rightarrow>
          (case at_stage cp of
             AwaitIsAuthenticated accessTok idTok \<Rightarrow>
               if isCanceled cp then resolve c s
               else
                 (let v = (if has_predicate cp then custom
                           else (accessTok \<noteq> None \<and> idTok \<noteq> None));
                      s1 = emitAuthStateChange
                             ((authState s)\<lparr>as_accessToken := accessTok, as_idToken := idTok,
                                isAuthenticated := v, isPending := False\<rparr>) s;
                      s2 = s1\<lparr>updateAuthStatePromise := None, canceledTimes := 0\<rparr>
                  in resolve c s2)
           | _ \<Rightarrow> s))"

section \<open>The browser client\<close>

text \<open>
  Modelled from the spec: the constants \<^verbatim>\<open>ACCESS_TOKEN_STORAGE_KEY\<close> and
  \<^verbatim>\<open>ID_TOKEN_STORAGE_KEY\<close> (\<^verbatim>\<open>../constants\<close>) are not among the sources. The spec calls them the
  two well-known keys; \<^verbatim>\<open>src/test/spec/browser.js\<close> expects the values below.
\<close>

definition ACCESS_TOKEN_STORAGE_KEY :: string where
  "ACCESS_TOKEN_STORAGE_KEY = ''accessToken''"

definition ID_TOKEN_STORAGE_KEY :: string where
  "ID_TOKEN_STORAGE_KEY = ''idToken''"

text \<open>
  \<^verbatim>\<open>encodeURIComponent\<close> on a string given as its UTF-8 bytes: the unreserved characters stay,
  every other byte becomes \<^verbatim>\<open>%XX\<close>.
\<close>

definition uri_unreserved :: "char \<Rightarrow> bool" where
  "uri_unreserved c =
     (c \<in> set (''ABCDEFGHIJKLMNOPQRSTUVWXYZabcdefghijklmnopqrstuvwxyz0123456789-_.!~*()''
                @ [CHR 0x27]))"

definition hex_digit :: "nat \<Rightarrow> char" where
  "hex_digit n = ''0123456789ABCDEF'' ! (n mod 16)"

definition encode_byte :: "char \<Rightarrow> string" where
  "encode_byte c =
     (if uri_unreserved c then [c]
      else [CHR ''%'', hex_digit (of_char c div 16), hex_digit (of_char c mod 16)])"

definition encodeURIComponent :: "string \<Rightarrow> string" where
  "encodeURIComponent str = concat (map encode_byte str)"

text \<open>The methods the constructor binds on \<^verbatim>\<open>tokenManager\<close>, as the browser client calls them.\<close>

definition tokenManager_get :: "string \<Rightarrow> sdk_state \<Rightarrow> token option \<times> sdk_state" where
  "tokenManager_get key s = (get s key, s\<lparr>calls := calls s @ [TokenManager_get key]\<rparr>)"

definition tokenManager_remove :: "string \<Rightarrow> sdk_state \<Rightarrow> sdk_state" where
  "tokenManager_remove key s =
     (let s1 = remove key s in s1\<lparr>calls := calls s1 @ [TokenManager_remove key]\<rparr>)"

definition tokenManager_clear :: "sdk_state \<Rightarrow> sdk_state" where
  "tokenManager_clear s =
     (let s1 = clear s in s1\<lparr>calls := calls s1 @ [TokenManager_clear]\<rparr>)"

text \<open>
  \<^verbatim>\<open>closeSession\<close>; \<open>close_result\<close> is what the promise of \<^verbatim>\<open>session.close()\<close> settles with
  (\<open>None\<close> a fulfilment, \<open>Some e\<close> a rejection with \<open>e\<close>).
\<close>

definition closeSession :: "err option \<Rightarrow> sdk_state \<Rightarrow> (err + unit) \<times> sdk_state" where
  "closeSession close_result s =
     (let s1 = tokenManager_clear s;
          s2 = s1\<lparr>calls := calls s1 @ [Session_close]\<rparr>
      in (case close_result of
            None \<Rightarrow> (Inr (), s2)
          | Some e \<Rightarrow>
              if err_name e = ''AuthApiError'' \<and> errorCode e = Some ''E0000007''
              then (Inr (), s2)
              else (Inl e, s2)))"

text \<open>
  \<^verbatim>\<open>revokeAccessToken\<close>; the argument is \<open>None\<close> when no token is passed, \<open>revoke_result\<close> is what
  the promise of \<^verbatim>\<open>token.revoke\<close> settles with.
\<close>

definition revokeAccessToken ::
  "token option \<Rightarrow> err option \<Rightarrow> sdk_state \<Rightarrow> (err + unit) \<times> sdk_state" where
  "revokeAccessToken accessTok revoke_result s =
     (let (tok, s1) =
            (case accessTok of
               Some t \<Rightarrow> (Some t, s)
             | None \<Rightarrow>
                 (let (r, sa) = tokenManager_get ACCESS_TOKEN_STORAGE_KEY s
                  in (r, tokenManager_remove ACCESS_TOKEN_STORAGE_KEY sa)))
      in (case tok of
            None \<Rightarrow> (Inr (), s1)
          | Some t \<Rightarrow>
              ((case revoke_result of None \<Rightarrow> Inr () | Some e \<Rightarrow> Inl e),
               s1\<lparr>calls := calls s1 @ [Token_revoke t]\<rparr>)))"

text \<open>An option of \<^verbatim>\<open>signOut\<close> that takes a token: left out, \<^verbatim>\<open>false\<close>, or a token.\<close>

datatype token_option = Omitted | GivenFalse | Given token

record signout_options =
  so_postLogoutRedirectUri :: "string option"
  so_accessToken :: token_option
  so_revokeAccessToken :: "bool option"
  so_idToken :: token_option
  so_state :: "string option"

record window_location =
  origin :: string
  href :: string

text \<open>\<^verbatim>\<open>a || b\<close> on an optional string and a string.\<close>

definition or_else :: "string option \<Rightarrow> string \<Rightarrow> string" where
  "or_else a b = (case a of None \<Rightarrow> b | Some x \<Rightarrow> if x = [] then b else x)"

text \<open>The logout URI; a missing \<^verbatim>\<open>idToken\<close> property is encoded as the string \<^verbatim>\<open>undefined\<close>.\<close>

definition logoutUri :: "string \<Rightarrow> token \<Rightarrow> string \<Rightarrow> string option \<Rightarrow> string" where
  "logoutUri logoutUrl idTok postLogoutRedirectUri st =
     (let idTokenHint = (case idToken idTok of None \<Rightarrow> ''undefined'' | Some h \<Rightarrow> h);
          uri = logoutUrl @ ''?id_token_hint='' @ encodeURIComponent idTokenHint @
                ''&post_logout_redirect_uri='' @ encodeURIComponent postLogoutRedirectUri
      in (case st of
            None \<Rightarrow> uri
          | Some x \<Rightarrow> if x = [] then uri else uri @ ''&state='' @ encodeURIComponent x))"

text \<open>
  \<^verbatim>\<open>signOut\<close>; \<open>logoutUrl\<close> is what \<^verbatim>\<open>getOAuthUrls\<close> (not among the sources) gives, and the two
  results are what the promises of \<^verbatim>\<open>token.revoke\<close> and \<^verbatim>\<open>session.close\<close> settle with. Other
  tasks that run while \<^verbatim>\<open>signOut\<close> awaits are not modelled.
\<close>

definition signOut ::
  "window_location \<Rightarrow> string \<Rightarrow> signout_options \<Rightarrow> err option \<Rightarrow> err option \<Rightarrow>
   sdk_state \<Rightarrow> (err + unit) \<times> sdk_state" where
  "signOut window logoutUrl options revoke_result close_result s =
     (let defaultUri = origin window;
          currentUri = href window;
          postLogoutRedirectUri =
            or_else (so_postLogoutRedirectUri options)
              (or_else (opt_postLogoutRedirectUri s) defaultUri);
          revoke = (so_revokeAccessToken options \<noteq> Some False);
          (idTok, s1) =
            (case so_idToken options of
               Omitted \<Rightarrow> tokenManager_get ID_TOKEN_STORAGE_KEY s
             | GivenFalse \<Rightarrow> (None, s)
             | Given t \<Rightarrow> (Some t, s));
          (accessTok, s2) =
            (case so_accessToken options of
               Omitted \<Rightarrow>
                 if revoke then tokenManager_get ACCESS_TOKEN_STORAGE_KEY s1 else (None, s1)
             | GivenFalse \<Rightarrow> (None, s1)
             | Given t \<Rightarrow> (Some t, s1));
          s3 = tokenManager_clear s2;
          (r, s4) =
            (case accessTok of
               Some t \<Rightarrow>
                 if revoke then revokeAccessToken (Some t) revoke_result s3 else (Inr (), s3)
             | None \<Rightarrow> (Inr (), s3))
      in (case r of
            Inl e \<Rightarrow> (Inl e, s4)
          | Inr _ \<Rightarrow>
              (case idTok of
                 None \<Rightarrow>
                   (case closeSession close_result s4 of
                      (Inl e, s5) \<Rightarrow> (Inl e, s5)
                    | (Inr _, s5) \<Rightarrow>
                        (Inr (),
                         s5\<lparr>calls := calls s5 @
                              [if postLogoutRedirectUri = currentUri then Location_reload
                               else Location_assign postLogoutRedirectUri]\<rparr>))
               | Some t \<Rightarrow>
                   (Inr (),
                    s4\<lparr>calls := calls s4 @
                         [Location_assign
                            (logoutUri logoutUrl t postLogoutRedirectUri (so_state options))]\<rparr>))))"

section \<open>A new instance\<close>

text \<open>
  The instance the constructors leave, on an empty storage: the default options of the token
  manager, \<^verbatim>\<open>DEFAULT_AUTH_STATE\<close> and \<^verbatim>\<open>DEFAULT_PENDING\<close>, no timer and no promise.
\<close>

definition new_sdk :: "int \<Rightarrow> sdk_state" where
  "new_sdk now =
     \<lparr>expireEarlySeconds = 30, autoRenew = True, opt_isAuthenticated = False,
      opt_postLogoutRedirectUri = None, clock_now = now, storage = Map.empty,
      expireTimeouts = Map.empty, renewPromise = Map.empty, renewals = [], emitted = [],
      calls = [], authState = DEFAULT_AUTH_STATE, updateAuthStatePromise = None,
      canceledTimes = 0, cancelables = []\<rparr>"

section \<open>Reachable states of the auth state manager\<close>

text \<open>
  What the constructor of \<^verbatim>\<open>AuthStateManager\<close> leaves: \<^verbatim>\<open>DEFAULT_AUTH_STATE\<close>, \<^verbatim>\<open>DEFAULT_PENDING\<close>
  and no cancelable promise.
\<close>

definition constructed :: "sdk_state \<Rightarrow> bool" where
  "constructed s =
     (authState s = DEFAULT_AUTH_STATE \<and> updateAuthStatePromise s = None
      \<and> canceledTimes s = 0 \<and> cancelables s = [])"

text \<open>
  The states the auth state manager reaches: calls of \<^verbatim>\<open>updateAuthState\<close>, the two
  continuations of a recomputation in any order and with any results, and steps of the rest of
  the SDK, which leave the pending slot, the counter and the cancelable promises alone.
\<close>

inductive reachable :: "sdk_state \<Rightarrow> bool" where
  start: "constructed s \<Longrightarrow> reachable s"
| update: "reachable s \<Longrightarrow> reachable (updateAuthState s)"
| tokens: "reachable s \<Longrightarrow> reachable (getTokens_then c accessTok idTok s)"
| predicate: "reachable s \<Longrightarrow> reachable (isAuthenticated_then c custom s)"
| other: "reachable s \<Longrightarrow> updateAuthStatePromise s' = updateAuthStatePromise s \<Longrightarrow>
          canceledTimes s' = canceledTimes s \<Longrightarrow> cancelables s' = cancelables s \<Longrightarrow>
          reachable s'"

text \<open>The promise in the pending slot is unsettled and not canceled.\<close>

definition slot_live :: "sdk_state \<Rightarrow> bool" where
  "slot_live s =
     (case updateAuthStatePromise s of
        None \<Rightarrow> True
      | Some p \<Rightarrow>
          (case lookup (cancelables s) p of
             None \<Rightarrow> False
           | Some c \<Rightarrow> c_isPending c \<and> \<not> isCanceled c))"

text \<open>The invariant of the pending slot: a bounded counter and a live promise.\<close>

definition pending_inv :: "sdk_state \<Rightarrow> bool" where
  "pending_inv s = (canceledTimes s \<le> MAX_PROMISE_CANCEL_TIMES \<and> slot_live s)"

section \<open>The logout URL as the spec words it\<close>

text \<open>
  The format of the spec, taken literally: the state parameter follows whenever a state option is
  supplied. It is compared with \<^verbatim>\<open>logoutUri\<close>, the URL the code builds.
\<close>

definition spec_logoutUri :: "string \<Rightarrow> string \<Rightarrow> string \<Rightarrow> string option \<Rightarrow> string" where
  "spec_logoutUri logoutEndpoint idTokenString uri st =
     logoutEndpoint @ ''?id_token_hint='' @ encodeURIComponent idTokenString @
     ''&post_logout_redirect_uri='' @ encodeURIComponent uri @
     (case st of None \<Rightarrow> [] | Some x \<Rightarrow> ''&state='' @ encodeURIComponent x)"

section \<open>Example values\<close>

text \<open>Tokens, errors and instances on which the properties below are evaluated.\<close>

definition example_id_token :: token where
  "example_id_token = \<lparr>scopes = Some [''openid''], expiresAt = ExpiresAt 100, idToken = Some ''abc'', accessToken = None\<rparr>"

definition example_access_token :: token where
  "example_access_token = \<lparr>scopes = Some [''openid''], expiresAt = ExpiresAt 100, idToken = None, accessToken = Some ''xyz''\<rparr>"

definition both_variants_token :: token where
  "both_variants_token = \<lparr>scopes = Some [''openid''], expiresAt = ExpiresAt 0, idToken = Some ''abc'', accessToken = Some ''xyz''\<rparr>"

definition fresh_id_token :: token where
  "fresh_id_token = \<lparr>scopes = Some [''openid''], expiresAt = ExpiresAt 200, idToken = Some ''def'', accessToken = None\<rparr>"

definition malformed_token :: token where
  "malformed_token =
     \<lparr>scopes = None, expiresAt = ExpiresAt 5, idToken = Some ''ghi'', accessToken = None\<rparr>"

definition string_expiry_token :: token where
  "string_expiry_token =
     \<lparr>scopes = Some [''a''], expiresAt = ExpiresOther True None, idToken = Some ''x'',
      accessToken = None\<rparr>"

definition stored_sdk :: sdk_state where
  "stored_sdk = snd (add ''idToken'' (JObject example_id_token) (new_sdk 0))"

definition renewing_sdk :: sdk_state where
  "renewing_sdk = snd (renew ''idToken'' stored_sdk)"


definition oauth_error :: err where
  "oauth_error = \<lparr>err_name = ''OAuthError'', err_message = ''invalid_grant'', errorCode = None,
     tokenKey = None, err_accessToken = None\<rparr>"

definition network_error :: err where
  "network_error = \<lparr>err_name = ''TypeError'', err_message = ''Failed to fetch'', errorCode = None,
     tokenKey = None, err_accessToken = None\<rparr>"

definition expired_access_token :: token where
  "expired_access_token = \<lparr>scopes = Some [''openid''], expiresAt = ExpiresAt 10, idToken = None, accessToken = Some ''old''\<rparr>"

definition both_stored_sdk :: sdk_state where
  "both_stored_sdk = snd (add ''accessToken'' (JObject expired_access_token) stored_sdk)"

definition updating_sdk :: sdk_state where
  "updating_sdk = updateAuthState both_stored_sdk"

definition storm_sdk :: sdk_state where
  "storm_sdk = (updateAuthState ^^ 11) both_stored_sdk"

definition superseded_sdk :: sdk_state where
  "superseded_sdk = updateAuthState updating_sdk"

definition read_sdk :: sdk_state where
  "read_sdk = getTokens_then 0 (Some expired_access_token) (Some example_id_token) updating_sdk"

definition signed_in_sdk :: sdk_state where
  "signed_in_sdk = snd (add ''accessToken'' (JObject example_access_token) stored_sdk)"

definition not_found_error :: err where
  "not_found_error = \<lparr>err_name = ''AuthApiError'', err_message = ''Not found'',
     errorCode = Some ''E0000007'', tokenKey = None, err_accessToken = None\<rparr>"

definition test_location :: window_location where
  "test_location = \<lparr>origin = ''https://somesite.local'', href = ''https://somesite.local/some-route''\<rparr>"

definition test_logoutUrl :: string where
  "test_logoutUrl = ''http://my-okta-domain/oauth2/v1/logout''"

definition default_options :: signout_options where
  "default_options = \<lparr>so_postLogoutRedirectUri = None, so_accessToken = Omitted,
     so_revokeAccessToken = None, so_idToken = Omitted, so_state = None\<rparr>"

definition empty_state_options :: signout_options where
  "empty_state_options = default_options\<lparr>so_state := Some []\<rparr>"

definition state_options :: signout_options where
  "state_options = default_options\<lparr>so_state := Some ''foo=bar&yo=me''\<rparr>"

section \<open>Properties of the token manager\<close>

lemmas tm_defs = add_def setExpireEventTimeout_def clearExpireEventTimeout_def remove_def
  emit_def emitRemoved_def emitError_def get_def getExpireTime_def

lemma add_emitted: "emitted (snd (add key v s)) = emitted s"
  by (simp add: tm_defs Let_def split: jsvalue.splits)

lemma add_accepts_iff:
  "(fst (add key v s) = Inr ()) =
   (\<exists>t. v = JObject t \<and> scopes t \<noteq> None
        \<and> (truthy_expires (expiresAt t) \<or> expiresAt t = ExpiresAt 0)
        \<and> (isIDToken t \<or> isAccessToken t))"
  by (cases v) (auto simp: add_def truthy_array_def split: option.splits)

lemma add_rejects:
  "fst (add key v s) \<noteq> Inr () \<Longrightarrow> add key v s = (Inl (AuthSdkError add_message), s)"
  by (cases v) (auto simp: add_def split: if_splits)

lemma add_accepted_state:
  "fst (add key (JObject t) s) = Inr () \<Longrightarrow>
   add key (JObject t) s = (Inr (), setExpireEventTimeout key t (s\<lparr>storage := (storage s)(key \<mapsto> t)\<rparr>))"
  by (auto simp: add_def split: if_splits)

text \<open>
  Claim C1: for a valid token, \<^verbatim>\<open>add\<close> writes the token into the store, schedules the
  expiration timer of the key and emits \<^verbatim>\<open>added\<close>. The code does the first two and emits no
  event at all: \<^verbatim>\<open>add\<close> never calls the emitter, although the auth state manager subscribes
  to \<^verbatim>\<open>added\<close> and its comment says that \<^verbatim>\<open>add\<close> emits it.
\<close>
theorem add_emits_no_added_event:
  "emitted (snd (add key v s)) = emitted s
   \<and> (fst (add key (JObject t) s) = Inr () \<longrightarrow>
        storage (snd (add key (JObject t) s)) key = Some t
        \<and> (\<exists>d. expireTimeouts (snd (add key (JObject t) s)) key =
               Some \<lparr>delay_ms = d, timeout_key = key, timeout_token = t\<rparr>))"
  by (auto simp add: add_emitted add_accepted_state setExpireEventTimeout_def
      clearExpireEventTimeout_def Let_def)

text \<open>
  The failing input of claim C1: an ID token added to a new instance is stored, its timer is
  set to 70 seconds, and the emitter has seen no event, so no \<^verbatim>\<open>added\<close>.
\<close>

theorem add_emits_no_added_event_witness:
  "fst (add ''idToken'' (JObject example_id_token) (new_sdk 0)) = Inr ()
   \<and> storage (snd (add ''idToken'' (JObject example_id_token) (new_sdk 0))) ''idToken''
       = Some example_id_token
   \<and> expireTimeouts (snd (add ''idToken'' (JObject example_id_token) (new_sdk 0))) ''idToken''
       = Some \<lparr>delay_ms = 70000, timeout_key = ''idToken'', timeout_token = example_id_token\<rparr>
   \<and> emitted (snd (add ''idToken'' (JObject example_id_token) (new_sdk 0))) = []
   \<and> Added ''idToken'' example_id_token
       \<notin> set (emitted (snd (add ''idToken'' (JObject example_id_token) (new_sdk 0))))"
  using add_emits_no_added_event [of "''idToken''" "JObject example_id_token" "new_sdk 0"
      example_id_token]
  by (simp add: tm_defs new_sdk_def example_id_token_def truthy_array_def truthy_expires_def to_number_def
      isIDToken_def isAccessToken_def truthy_str_def Let_def)

text \<open>
  Claim C9, as amended: \<^verbatim>\<open>add\<close> accepts a value exactly when it is an object with \<^verbatim>\<open>scopes\<close>,
  an \<^verbatim>\<open>expiresAt\<close> that is truthy (a number or not) or the number 0, and at least one of the two
  variant predicates; every other value is rejected with the configuration error and the
  instance, the store included, is left as it was.
\<close>
theorem add_validation:
  "((fst (add key v s) = Inr ()) =
      (\<exists>t. v = JObject t \<and> scopes t \<noteq> None
            \<and> (truthy_expires (expiresAt t) \<or> expiresAt t = ExpiresAt 0)
            \<and> (isIDToken t \<or> isAccessToken t)))
   \<and> (fst (add key v s) \<noteq> Inr () \<longrightarrow>
        add key v s = (Inl (AuthSdkError add_message), s))"
  using add_accepts_iff add_rejects by blast

text \<open>
  An ID token is accepted; \<^verbatim>\<open>null\<close> and a token without \<^verbatim>\<open>scopes\<close> are rejected and change
  nothing.
\<close>
theorem add_validation_witness:
  "fst (add ''k'' (JObject example_id_token) (new_sdk 0)) = Inr ()
   \<and> fst (add ''k'' JNull (new_sdk 0)) \<noteq> Inr ()
   \<and> add ''k'' JNull (new_sdk 0) = (Inl (AuthSdkError add_message), new_sdk 0)
   \<and> fst (add ''k'' (JObject malformed_token) (new_sdk 0)) \<noteq> Inr ()
   \<and> add ''k'' (JObject malformed_token) (new_sdk 0) =
       (Inl (AuthSdkError add_message), new_sdk 0)"
proof -
  have a: "fst (add ''k'' (JObject example_id_token) (new_sdk 0)) = Inr ()"
    by (simp add: add_accepts_iff example_id_token_def isIDToken_def truthy_str_def
        truthy_expires_def)
  have b: "fst (add ''k'' JNull (new_sdk 0)) \<noteq> Inr ()"
    by (simp add: add_accepts_iff)
  have c: "fst (add ''k'' (JObject malformed_token) (new_sdk 0)) \<noteq> Inr ()"
    by (simp add: add_accepts_iff malformed_token_def)
  show ?thesis
    using add_validation [of "''k''" JNull "new_sdk 0"]
      add_validation [of "''k''" "JObject malformed_token" "new_sdk 0"] a b c
    by blast
qed

text \<open>
  Claim C9 as stated asks for exactly one of the two variants and for a numeric \<^verbatim>\<open>expiresAt\<close>.
  A token that satisfies both predicates is accepted, and so is a token whose \<^verbatim>\<open>expiresAt\<close> is
  the string \<^verbatim>\<open>'never'\<close>: it is stored, with a timer that fires at once.
\<close>
theorem add_accepts_more_than_claimed:
  "fst (add ''k'' (JObject both_variants_token) (new_sdk 0)) = Inr ()
   \<and> isIDToken both_variants_token \<and> isAccessToken both_variants_token
   \<and> expiresAt string_expiry_token = ExpiresOther True None
   \<and> fst (add ''k'' (JObject string_expiry_token) (new_sdk 0)) = Inr ()
   \<and> storage (snd (add ''k'' (JObject string_expiry_token) (new_sdk 0))) ''k'' =
       Some string_expiry_token
   \<and> expireTimeouts (snd (add ''k'' (JObject string_expiry_token) (new_sdk 0))) ''k'' =
       Some \<lparr>delay_ms = 0, timeout_key = ''k'', timeout_token = string_expiry_token\<rparr>"
  by (simp add: tm_defs both_variants_token_def string_expiry_token_def isIDToken_def
      isAccessToken_def truthy_str_def truthy_array_def truthy_expires_def to_number_def Let_def)

lemma lookup_update [simp]:
  "lookup (xs[i := v]) j = (if i = j \<and> j < length xs then Some v else lookup xs j)"
  by (simp add: lookup_def)

lemma lookup_append_new [simp]: "lookup (xs @ [v]) (length xs) = Some v"
  by (simp add: lookup_def)

lemma lookup_Some_less: "lookup xs i = Some v \<Longrightarrow> i < length xs"
  by (simp add: lookup_def split: if_splits)



lemma renew_finally_cache: "renewPromise (renew_finally key s) key = None"
  by (simp add: renew_finally_def)












lemma renew_settle_rejected:
  assumes "lookup (renewals s) p = Some (RenewalPending key t)"
  shows "renew_settle p (Inl e) s =
    (let (r2, s2) = renew_catch key t e s; s3 = renew_finally key s2
     in s3\<lparr>renewals := (renewals s3)[p := RenewalSettled r2]\<rparr>)"
  using assms by (simp add: renew_settle_def)

lemma renew_settle_classified:
  assumes "lookup (renewals s) p = Some (RenewalPending key t)"
    and "err_name e = ''OAuthError'' \<or> err_name e = ''AuthSdkError''"
  shows "renew_settle p (Inl e) s =
    s\<lparr>expireTimeouts := (expireTimeouts s)(key := None),
      renewPromise := (renewPromise s)(key := None),
      storage := (storage s)(key := None),
      emitted := emitted s @
        [Removed key,
         Error (e\<lparr>tokenKey := Some key, err_accessToken := Some (truthy_str (accessToken t))\<rparr>)],
      renewals := (renewals s)
        [p := RenewalSettled
           (Inl (e\<lparr>tokenKey := Some key, err_accessToken := Some (truthy_str (accessToken t))\<rparr>))]\<rparr>"
  using assms
  by (auto simp add: renew_settle_rejected renew_catch_def renew_finally_def tm_defs Let_def)

lemma renew_settle_unclassified:
  assumes "lookup (renewals s) p = Some (RenewalPending key t)"
    and "err_name e \<noteq> ''OAuthError'' \<and> err_name e \<noteq> ''AuthSdkError''"
  shows "renew_settle p (Inl e) s =
    s\<lparr>renewPromise := (renewPromise s)(key := None),
      renewals := (renewals s)[p := RenewalSettled (Inl e)]\<rparr>"
  using assms
  by (simp add: renew_settle_rejected renew_catch_def renew_finally_def)

lemma renew_settle_invalid_fresh:
  assumes "lookup (renewals s) p = Some (RenewalPending key t)"
    and "storage s key = Some old" and "fst (add key (JObject fresh) s) \<noteq> Inr ()"
  shows "renew_settle p (Inr fresh) s = renew_settle p (Inl (AuthSdkError add_message)) s"
  using assms add_rejects [OF assms(3)]
  by (simp add: renew_settle_def renew_then_def get_def)

text \<open>
  Claim C5: when the renewal of a key fails with an error named \<^verbatim>\<open>OAuthError\<close> or
  \<^verbatim>\<open>AuthSdkError\<close>, the key is removed from the store and an \<^verbatim>\<open>error\<close> event carries the error
  with the key and whether the renewed token was an access token; the promise rejects with
  that error. With any other error the promise rejects with it, and nothing changes but the
  cache entry: no write to the store, no event. A fresh token that \<^verbatim>\<open>add\<close> rejects is such a
  failure, with the error \<^verbatim>\<open>add\<close> throws.
\<close>
theorem renew_failure_handling:
  "lookup (renewals s) p = Some (RenewalPending key t) \<longrightarrow>
     (err_name e = ''OAuthError'' \<or> err_name e = ''AuthSdkError'' \<longrightarrow>
        storage (renew_settle p (Inl e) s) = (storage s)(key := None)
        \<and> emitted (renew_settle p (Inl e) s) = emitted s @
            [Removed key,
             Error (e\<lparr>tokenKey := Some key,
                      err_accessToken := Some (truthy_str (accessToken t))\<rparr>)]
        \<and> lookup (renewals (renew_settle p (Inl e) s)) p =
            Some (RenewalSettled
              (Inl (e\<lparr>tokenKey := Some key,
                       err_accessToken := Some (truthy_str (accessToken t))\<rparr>))))
     \<and> (err_name e \<noteq> ''OAuthError'' \<and> err_name e \<noteq> ''AuthSdkError'' \<longrightarrow>
        renew_settle p (Inl e) s =
          s\<lparr>renewPromise := (renewPromise s)(key := None),
            renewals := (renewals s)[p := RenewalSettled (Inl e)]\<rparr>)
     \<and> (storage s key = Some old \<and> fst (add key (JObject fresh) s) \<noteq> Inr () \<longrightarrow>
        renew_settle p (Inr fresh) s = renew_settle p (Inl (AuthSdkError add_message)) s)"
proof (intro impI conjI)
  assume p: "lookup (renewals s) p = Some (RenewalPending key t)"
  then have len: "p < length (renewals s)" by (rule lookup_Some_less)
  {
    assume c: "err_name e = ''OAuthError'' \<or> err_name e = ''AuthSdkError''"
    note eq = renew_settle_classified [OF p c]
    show "storage (renew_settle p (Inl e) s) = (storage s)(key := None)"
      by (simp add: eq)
    show "emitted (renew_settle p (Inl e) s) = emitted s @
            [Removed key,
             Error (e\<lparr>tokenKey := Some key,
                      err_accessToken := Some (truthy_str (accessToken t))\<rparr>)]"
      by (simp add: eq)
    show "lookup (renewals (renew_settle p (Inl e) s)) p =
            Some (RenewalSettled
              (Inl (e\<lparr>tokenKey := Some key,
                       err_accessToken := Some (truthy_str (accessToken t))\<rparr>)))"
      using len by (simp add: eq)
  }
  {
    assume "err_name e \<noteq> ''OAuthError'' \<and> err_name e \<noteq> ''AuthSdkError''"
    with p show "renew_settle p (Inl e) s =
          s\<lparr>renewPromise := (renewPromise s)(key := None),
            renewals := (renewals s)[p := RenewalSettled (Inl e)]\<rparr>"
      by (rule renew_settle_unclassified)
  }
  {
    assume "storage s key = Some old \<and> fst (add key (JObject fresh) s) \<noteq> Inr ()"
    with p show "renew_settle p (Inr fresh) s =
        renew_settle p (Inl (AuthSdkError add_message)) s"
      by (simp add: renew_settle_invalid_fresh)
  }
qed

lemma renew_settle_fulfilled:
  assumes "lookup (renewals s) p = Some (RenewalPending key t)"
  shows "renew_settle p (Inr fresh) s =
    (let (r1, s1) = renew_then key fresh s;
         (r2, s2) = (case r1 of Inl e \<Rightarrow> renew_catch key t e s1 | Inr v \<Rightarrow> (Inr v, s1));
         s3 = renew_finally key s2
     in s3\<lparr>renewals := (renewals s3)[p := RenewalSettled r2]\<rparr>)"
  using assms by (simp add: renew_settle_def)

lemma renew_then_absent:
  "storage s key = None \<Longrightarrow> renew_then key fresh s = (Inr None, s)"
  by (simp add: renew_then_def get_def)

lemma renew_then_present:
  assumes "storage s key = Some old" and "fst (add key (JObject fresh) s) = Inr ()"
  shows "renew_then key fresh s =
    (Inr (Some fresh),
     emit (Renewed key fresh old)
       (setExpireEventTimeout key fresh (s\<lparr>storage := (storage s)(key \<mapsto> fresh)\<rparr>)))"
  using assms by (simp add: renew_then_def get_def add_accepted_state)

lemma renew_settle_absent:
  assumes "lookup (renewals s) p = Some (RenewalPending key t)" and "storage s key = None"
  shows "renew_settle p (Inr fresh) s =
    s\<lparr>renewPromise := (renewPromise s)(key := None),
      renewals := (renewals s)[p := RenewalSettled (Inr None)]\<rparr>"
  using assms by (simp add: renew_settle_fulfilled renew_then_absent renew_finally_def)

lemma renew_settle_present:
  assumes "lookup (renewals s) p = Some (RenewalPending key t)"
    and "storage s key = Some old" and "fst (add key (JObject fresh) s) = Inr ()"
  shows "renew_settle p (Inr fresh) s =
    (let s1 = emit (Renewed key fresh old) (snd (add key (JObject fresh) s))
     in s1\<lparr>renewPromise := (renewPromise s1)(key := None),
          renewals := (renewals s1)[p := RenewalSettled (Inr (Some fresh))]\<rparr>)"
  using assms
  by (simp add: renew_settle_fulfilled renew_then_present add_accepted_state renew_finally_def Let_def)

text \<open>
  Claim C6: when the provider resolves with a fresh token (one that \<^verbatim>\<open>add\<close> accepts) and the
  key is still in the store, the fresh token is stored by \<^verbatim>\<open>add\<close>, \<^verbatim>\<open>renewed\<close> is emitted with
  the key, the new and the old token, and the promise resolves with the new token. When the key
  is gone, the promise resolves with \<^verbatim>\<open>undefined\<close> and nothing changes but the cache entry: the
  store is not written and no event is emitted.
\<close>
theorem renew_success_handling:
  "lookup (renewals s) p = Some (RenewalPending key t) \<longrightarrow>
     (storage s key = Some old \<and> fst (add key (JObject fresh) s) = Inr () \<longrightarrow>
        storage (renew_settle p (Inr fresh) s) = (storage s)(key \<mapsto> fresh)
        \<and> expireTimeouts (renew_settle p (Inr fresh) s) =
            expireTimeouts (snd (add key (JObject fresh) s))
        \<and> emitted (renew_settle p (Inr fresh) s) = emitted s @ [Renewed key fresh old]
        \<and> lookup (renewals (renew_settle p (Inr fresh) s)) p =
            Some (RenewalSettled (Inr (Some fresh))))
     \<and> (storage s key = None \<longrightarrow>
        renew_settle p (Inr fresh) s =
          s\<lparr>renewPromise := (renewPromise s)(key := None),
            renewals := (renewals s)[p := RenewalSettled (Inr None)]\<rparr>)"
proof (intro impI conjI)
  assume p: "lookup (renewals s) p = Some (RenewalPending key t)"
  then have len: "p < length (renewals s)" by (rule lookup_Some_less)
  {
    assume "storage s key = Some old \<and> fst (add key (JObject fresh) s) = Inr ()"
    then have old: "storage s key = Some old" and ok: "fst (add key (JObject fresh) s) = Inr ()"
      by simp_all
    note eq = renew_settle_present [OF p old ok]
    show "storage (renew_settle p (Inr fresh) s) = (storage s)(key \<mapsto> fresh)"
      by (simp add: eq Let_def emit_def add_accepted_state [OF ok] setExpireEventTimeout_def
          clearExpireEventTimeout_def)
    show "expireTimeouts (renew_settle p (Inr fresh) s) =
            expireTimeouts (snd (add key (JObject fresh) s))"
      by (simp add: eq Let_def emit_def)
    show "emitted (renew_settle p (Inr fresh) s) = emitted s @ [Renewed key fresh old]"
      by (simp add: eq Let_def emit_def add_emitted)
    have "renewals (snd (add key (JObject fresh) s)) = renewals s"
      by (simp add: add_accepted_state [OF ok] setExpireEventTimeout_def
          clearExpireEventTimeout_def Let_def)
    then show "lookup (renewals (renew_settle p (Inr fresh) s)) p =
            Some (RenewalSettled (Inr (Some fresh)))"
      using len by (simp add: eq Let_def emit_def)
  }
  {
    assume "storage s key = None"
    with p show "renew_settle p (Inr fresh) s =
          s\<lparr>renewPromise := (renewPromise s)(key := None),
            renewals := (renewals s)[p := RenewalSettled (Inr None)]\<rparr>"
      by (rule renew_settle_absent)
  }
qed

lemmas example_defs = new_sdk_def example_id_token_def fresh_id_token_def stored_sdk_def
  renewing_sdk_def oauth_error_def network_error_def truthy_array_def truthy_expires_def to_number_def
  truthy_str_def isIDToken_def isAccessToken_def

lemma stored_sdk_facts:
  "renewPromise stored_sdk ''idToken'' = None"
  "storage stored_sdk ''idToken'' = Some example_id_token"
  "renewals stored_sdk = []"
  "calls stored_sdk = []"
  "emitted stored_sdk = []"
  by (simp_all add: stored_sdk_def new_sdk_def example_id_token_def tm_defs truthy_array_def
      truthy_expires_def to_number_def truthy_str_def isIDToken_def isAccessToken_def Let_def)

lemma renewing_sdk_facts:
  "renewPromise renewing_sdk ''idToken'' = Some 0"
  "lookup (renewals renewing_sdk) 0 = Some (RenewalPending ''idToken'' example_id_token)"
  "storage renewing_sdk ''idToken'' = Some example_id_token"
  "emitted renewing_sdk = []"
  "calls renewing_sdk = [Token_renew example_id_token]"
  "renewals renewing_sdk = [RenewalPending ''idToken'' example_id_token]"
  using stored_sdk_facts
  by (simp_all add: renewing_sdk_def renew_def get_def clearExpireEventTimeout_def Let_def lookup_def)




text \<open>A provider rejection removes the ID token; a network failure leaves it.\<close>
theorem renew_failure_handling_witness:
  "lookup (renewals renewing_sdk) 0 = Some (RenewalPending ''idToken'' example_id_token)
   \<and> storage (renew_settle 0 (Inl oauth_error) renewing_sdk) ''idToken'' = None
   \<and> emitted (renew_settle 0 (Inl oauth_error) renewing_sdk) =
       [Removed ''idToken'',
        Error (oauth_error\<lparr>tokenKey := Some ''idToken'', err_accessToken := Some False\<rparr>)]
   \<and> storage (renew_settle 0 (Inl network_error) renewing_sdk) ''idToken''
       = Some example_id_token
   \<and> emitted (renew_settle 0 (Inl network_error) renewing_sdk) = []
   \<and> storage renewing_sdk ''idToken'' = Some example_id_token
   \<and> fst (add ''idToken'' (JObject malformed_token) renewing_sdk) \<noteq> Inr ()
   \<and> storage (renew_settle 0 (Inr malformed_token) renewing_sdk) ''idToken'' = None"
proof -
  have bad: "fst (add ''idToken'' (JObject malformed_token) renewing_sdk) \<noteq> Inr ()"
    by (simp add: add_accepts_iff malformed_token_def)
  show ?thesis
    using renew_failure_handling [where s = renewing_sdk and p = 0 and key = "''idToken''"
        and t = example_id_token and e = oauth_error and old = example_id_token
        and fresh = malformed_token]
      renew_failure_handling [where s = renewing_sdk and p = 0 and key = "''idToken''"
        and t = example_id_token and e = network_error and old = example_id_token
        and fresh = malformed_token]
      renew_failure_handling [where s = renewing_sdk and p = 0 and key = "''idToken''"
        and t = example_id_token and e = "AuthSdkError add_message" and old = example_id_token
        and fresh = malformed_token]
      renewing_sdk_facts bad
    by (simp add: oauth_error_def network_error_def example_id_token_def truthy_str_def
        AuthSdkError_def)
qed

text \<open>A renewal that succeeds, and one whose tokens were cleared while it was pending.\<close>
theorem renew_success_handling_witness:
  "lookup (renewals renewing_sdk) 0 = Some (RenewalPending ''idToken'' example_id_token)
   \<and> storage renewing_sdk ''idToken'' = Some example_id_token
   \<and> fst (add ''idToken'' (JObject fresh_id_token) renewing_sdk) = Inr ()
   \<and> storage (renew_settle 0 (Inr fresh_id_token) renewing_sdk) ''idToken'' = Some fresh_id_token
   \<and> emitted (renew_settle 0 (Inr fresh_id_token) renewing_sdk) =
       [Renewed ''idToken'' fresh_id_token example_id_token]
   \<and> lookup (renewals (clear renewing_sdk)) 0 = Some (RenewalPending ''idToken'' example_id_token)
   \<and> storage (clear renewing_sdk) ''idToken'' = None
   \<and> storage (renew_settle 0 (Inr fresh_id_token) (clear renewing_sdk)) ''idToken'' = None
   \<and> emitted (renew_settle 0 (Inr fresh_id_token) (clear renewing_sdk)) = []"
proof -
  have ok: "fst (add ''idToken'' (JObject fresh_id_token) renewing_sdk) = Inr ()"
    by (simp add: add_accepts_iff fresh_id_token_def isIDToken_def truthy_str_def
        truthy_expires_def)
  have cl: "lookup (renewals (clear renewing_sdk)) 0 = Some (RenewalPending ''idToken'' example_id_token)"
    "storage (clear renewing_sdk) ''idToken'' = None" "emitted (clear renewing_sdk) = []"
    using renewing_sdk_facts by (simp_all add: clear_def clearExpireEventTimeoutAll_def)
  show ?thesis
    using renew_success_handling [of renewing_sdk 0 "''idToken''" example_id_token
        example_id_token fresh_id_token]
      renew_success_handling [of "clear renewing_sdk" 0 "''idToken''" example_id_token
        example_id_token fresh_id_token]
      renewing_sdk_facts ok cl
    by simp
qed

section \<open>Properties of the auth state manager\<close>

lemma cancel_live:
  assumes "lookup (cancelables s) p = Some c" "c_isPending c" "\<not> isCanceled c"
  shows "cancel p s = s\<lparr>updateAuthStatePromise := None, canceledTimes := canceledTimes s + 1,
      cancelables := (cancelables s)[p := c\<lparr>isCanceled := True\<rparr>]\<rparr>"
  using assms by (simp add: cancel_def)

lemma updateAuthState_dropped:
  "updateAuthStatePromise s = Some p \<Longrightarrow> MAX_PROMISE_CANCEL_TIMES \<le> canceledTimes s \<Longrightarrow>
   updateAuthState s = s"
  by (simp add: updateAuthState_def)

lemma updateAuthState_idle:
  "updateAuthStatePromise s = None \<Longrightarrow>
   updateAuthState s = s\<lparr>cancelables := cancelables s @
       [\<lparr>isCanceled = False, c_isPending = True, has_predicate = opt_isAuthenticated s,
         at_stage = AwaitTokens\<rparr>],
     updateAuthStatePromise := Some (length (cancelables s))\<rparr>"
  by (simp add: updateAuthState_def)

lemma updateAuthState_supersedes:
  assumes "updateAuthStatePromise s = Some p" "canceledTimes s < MAX_PROMISE_CANCEL_TIMES"
    "lookup (cancelables s) p = Some c" "c_isPending c" "\<not> isCanceled c"
  shows "updateAuthState s =
    s\<lparr>canceledTimes := canceledTimes s + 1,
      cancelables := (cancelables s)[p := c\<lparr>isCanceled := True\<rparr>] @
       [\<lparr>isCanceled = False, c_isPending = True, has_predicate = opt_isAuthenticated s,
         at_stage = AwaitTokens\<rparr>],
      updateAuthStatePromise := Some (length (cancelables s))\<rparr>"
  using assms by (simp add: updateAuthState_def cancel_live Let_def)

lemma pending_inv_update: "pending_inv s \<Longrightarrow> pending_inv (updateAuthState s)"
proof -
  assume inv: "pending_inv s"
  show ?thesis
  proof (cases "updateAuthStatePromise s")
    case None
    then show ?thesis using inv
      by (simp add: updateAuthState_idle pending_inv_def slot_live_def)
  next
    case (Some p)
    show ?thesis
    proof (cases "MAX_PROMISE_CANCEL_TIMES \<le> canceledTimes s")
      case True
      then show ?thesis using inv Some by (simp add: updateAuthState_dropped)
    next
      case False
      from inv Some obtain c where c: "lookup (cancelables s) p = Some c" "c_isPending c" "\<not> isCanceled c"
        by (auto simp: pending_inv_def slot_live_def split: option.splits)
      from False have lt: "canceledTimes s < MAX_PROMISE_CANCEL_TIMES" by simp
      show ?thesis using lt
        by (simp add: updateAuthState_supersedes [OF Some lt c] pending_inv_def slot_live_def
            lookup_def nth_append)
    qed
  qed
qed

lemma resolve_canceled_inv:
  assumes "pending_inv s" "lookup (cancelables s) c = Some cp" "isCanceled cp"
  shows "pending_inv (resolve c s)"
  using assms
  by (auto simp: pending_inv_def slot_live_def resolve_def split: option.splits)

lemma pending_inv_tokens: "pending_inv s \<Longrightarrow> pending_inv (getTokens_then c a i s)"
  by (auto simp: getTokens_then_def resolve_canceled_inv split: option.splits)
     (auto simp: pending_inv_def slot_live_def split: option.splits)

lemma pending_inv_predicate: "pending_inv s \<Longrightarrow> pending_inv (isAuthenticated_then c b s)"
  by (auto simp: isAuthenticated_then_def resolve_canceled_inv Let_def split: option.splits stage.splits)
     (auto simp: pending_inv_def slot_live_def resolve_def emitAuthStateChange_def emit_def split: option.splits)

lemma reachable_inv: "reachable s \<Longrightarrow> pending_inv s"
proof (induction rule: reachable.induct)
  case (start s)
  then show ?case by (simp add: constructed_def pending_inv_def slot_live_def)
next
  case (update s)
  then show ?case by (simp add: pending_inv_update)
next
  case (tokens s c accessTok idTok)
  then show ?case by (simp add: pending_inv_tokens)
next
  case (predicate s c custom)
  then show ?case by (simp add: pending_inv_predicate)
next
  case (other s s')
  then show ?case by (auto simp: pending_inv_def slot_live_def split: option.splits)
qed

lemma getTokens_then_canceled:
  assumes "lookup (cancelables s) c = Some cp" "isCanceled cp"
  shows "authState (getTokens_then c a i s) = authState s"
    and "emitted (getTokens_then c a i s) = emitted s"
    and "storage (getTokens_then c a i s) = storage s"
  using assms by (simp_all add: getTokens_then_def resolve_def)

lemma isAuthenticated_then_canceled:
  assumes "lookup (cancelables s) c = Some cp" "isCanceled cp"
  shows "authState (isAuthenticated_then c b s) = authState s"
    and "emitted (isAuthenticated_then c b s) = emitted s"
    and "storage (isAuthenticated_then c b s) = storage s"
  using assms by (simp_all add: isAuthenticated_then_def resolve_def split: stage.splits)

lemma getTokens_then_live:
  assumes "lookup (cancelables s) c = Some cp" "\<not> isCanceled cp" "at_stage cp = AwaitTokens"
  shows "getTokens_then c a i s =
    s\<lparr>cancelables := (cancelables s)
        [c := cp\<lparr>at_stage := AwaitIsAuthenticated (demote s a) (demote s i)\<rparr>]\<rparr>"
  using assms by (simp add: getTokens_then_def)

lemma isAuthenticated_then_live:
  assumes "lookup (cancelables s) c = Some cp" "\<not> isCanceled cp"
    "at_stage cp = AwaitIsAuthenticated a i"
  shows "isAuthenticated_then c b s =
    s\<lparr>authState :=
        \<lparr>isPending = False,
         isAuthenticated = (if has_predicate cp then b else a \<noteq> None \<and> i \<noteq> None),
         as_idToken = i, as_accessToken = a\<rparr>,
      emitted := emitted s @
        [AuthStateChange
          \<lparr>isPending = False,
           isAuthenticated = (if has_predicate cp then b else a \<noteq> None \<and> i \<noteq> None),
           as_idToken = i, as_accessToken = a\<rparr>],
      updateAuthStatePromise := None, canceledTimes := 0,
      cancelables := (cancelables s)[c := cp\<lparr>c_isPending := False, at_stage := Resolved\<rparr>]\<rparr>"
  using assms
  by (simp add: isAuthenticated_then_def emitAuthStateChange_def emit_def resolve_def Let_def)

text \<open>
  Claim C3: \<^verbatim>\<open>updateAuthState\<close> on an empty slot starts a recomputation that notes whether a
  predicate is configured. A recomputation that is not canceled takes the access and the ID
  token it read,
  turns each token for which \<^verbatim>\<open>hasExpired\<close> holds into null, and waits for the authentication
  predicate; when that resolves, still not canceled, the stored auth state is the new snapshot
  with \<^verbatim>\<open>isPending\<close> false, the demoted tokens, and \<^verbatim>\<open>isAuthenticated\<close> the caller's predicate if
  one is configured and otherwise "both tokens present"; \<^verbatim>\<open>authStateChange\<close> is emitted with that
  snapshot, and the token store is the one it was: an expired token stays stored.
\<close>
theorem recomputation_completes:
  "(updateAuthStatePromise s = None \<longrightarrow>
      updateAuthStatePromise (updateAuthState s) = Some (length (cancelables s))
      \<and> lookup (cancelables (updateAuthState s)) (length (cancelables s)) =
          Some \<lparr>isCanceled = False, c_isPending = True,
                has_predicate = opt_isAuthenticated s, at_stage = AwaitTokens\<rparr>)
   \<and> (lookup (cancelables s) c = Some cp \<and> \<not> isCanceled cp \<and> at_stage cp = AwaitTokens \<longrightarrow>
      getTokens_then c accessTok idTok s =
        s\<lparr>cancelables := (cancelables s)
            [c := cp\<lparr>at_stage :=
               AwaitIsAuthenticated (demote s accessTok) (demote s idTok)\<rparr>]\<rparr>)
   \<and> demote s None = None
   \<and> demote s (Some t) = (if hasExpired s t then None else Some t)
   \<and> (lookup (cancelables s) c = Some cp \<and> \<not> isCanceled cp
        \<and> at_stage cp = AwaitIsAuthenticated a i \<longrightarrow>
      authState (isAuthenticated_then c custom s) =
        \<lparr>isPending = False,
         isAuthenticated = (if has_predicate cp then custom else a \<noteq> None \<and> i \<noteq> None),
         as_idToken = i, as_accessToken = a\<rparr>
      \<and> emitted (isAuthenticated_then c custom s) =
          emitted s @ [AuthStateChange (authState (isAuthenticated_then c custom s))]
      \<and> storage (isAuthenticated_then c custom s) = storage s
      \<and> updateAuthStatePromise (isAuthenticated_then c custom s) = None
      \<and> canceledTimes (isAuthenticated_then c custom s) = 0)"
proof (intro conjI impI)
  assume idle: "updateAuthStatePromise s = None"
  then show "updateAuthStatePromise (updateAuthState s) = Some (length (cancelables s))"
    by (simp add: updateAuthState_idle)
  from idle show "lookup (cancelables (updateAuthState s)) (length (cancelables s)) =
          Some \<lparr>isCanceled = False, c_isPending = True,
                has_predicate = opt_isAuthenticated s, at_stage = AwaitTokens\<rparr>"
    by (simp add: updateAuthState_idle)
next
  assume "lookup (cancelables s) c = Some cp \<and> \<not> isCanceled cp \<and> at_stage cp = AwaitTokens"
  then show "getTokens_then c accessTok idTok s =
        s\<lparr>cancelables := (cancelables s)
            [c := cp\<lparr>at_stage :=
               AwaitIsAuthenticated (demote s accessTok) (demote s idTok)\<rparr>]\<rparr>"
    by (simp add: getTokens_then_live)
next
  show "demote s None = None" by (simp add: demote_def)
next
  show "demote s (Some t) = (if hasExpired s t then None else Some t)" by (simp add: demote_def)
next
  assume a: "lookup (cancelables s) c = Some cp \<and> \<not> isCanceled cp
        \<and> at_stage cp = AwaitIsAuthenticated a i"
  then have eq: "isAuthenticated_then c custom s =
    s\<lparr>authState :=
        \<lparr>isPending = False,
         isAuthenticated = (if has_predicate cp then custom else a \<noteq> None \<and> i \<noteq> None),
         as_idToken = i, as_accessToken = a\<rparr>,
      emitted := emitted s @
        [AuthStateChange
          \<lparr>isPending = False,
           isAuthenticated = (if has_predicate cp then custom else a \<noteq> None \<and> i \<noteq> None),
           as_idToken = i, as_accessToken = a\<rparr>],
      updateAuthStatePromise := None, canceledTimes := 0,
      cancelables := (cancelables s)[c := cp\<lparr>c_isPending := False, at_stage := Resolved\<rparr>]\<rparr>"
    by (simp add: isAuthenticated_then_live)
  show "authState (isAuthenticated_then c custom s) =
        \<lparr>isPending = False,
         isAuthenticated = (if has_predicate cp then custom else a \<noteq> None \<and> i \<noteq> None),
         as_idToken = i, as_accessToken = a\<rparr>"
    by (simp add: eq)
  show "emitted (isAuthenticated_then c custom s) =
          emitted s @ [AuthStateChange (authState (isAuthenticated_then c custom s))]"
    by (simp add: eq)
  show "storage (isAuthenticated_then c custom s) = storage s" by (simp add: eq)
  show "updateAuthStatePromise (isAuthenticated_then c custom s) = None" by (simp add: eq)
  show "canceledTimes (isAuthenticated_then c custom s) = 0" by (simp add: eq)
qed

lemma reachable_slot:
  assumes "reachable s" "updateAuthStatePromise s = Some p"
  obtains c where "lookup (cancelables s) p = Some c" "c_isPending c" "\<not> isCanceled c"
  using reachable_inv [OF assms(1)] assms(2)
  by (auto simp: pending_inv_def slot_live_def split: option.splits)

text \<open>
  Claim C4: with a recomputation in the slot, \<^verbatim>\<open>updateAuthState\<close> at the ceiling changes
  nothing; below the ceiling it cancels the recomputation in the slot, counts the cancellation
  and puts a new recomputation in the slot, without touching the auth state or the emitter. The
  continuations of a canceled recomputation leave the auth state and the emitter as they are.
  In every reachable state the counter is at most the ceiling, and a recomputation that
  completes sets it to zero.
\<close>
theorem updateAuthState_cancellation:
  "(updateAuthStatePromise s = Some p \<and> MAX_PROMISE_CANCEL_TIMES \<le> canceledTimes s \<longrightarrow>
      updateAuthState s = s)
   \<and> (reachable s \<and> updateAuthStatePromise s = Some p
        \<and> canceledTimes s < MAX_PROMISE_CANCEL_TIMES \<longrightarrow>
      (\<exists>cp. lookup (cancelables (updateAuthState s)) p = Some cp \<and> isCanceled cp)
      \<and> updateAuthStatePromise (updateAuthState s) = Some (length (cancelables s))
      \<and> p \<noteq> length (cancelables s)
      \<and> lookup (cancelables (updateAuthState s)) (length (cancelables s)) =
          Some \<lparr>isCanceled = False, c_isPending = True,
                has_predicate = opt_isAuthenticated s, at_stage = AwaitTokens\<rparr>
      \<and> canceledTimes (updateAuthState s) = canceledTimes s + 1
      \<and> authState (updateAuthState s) = authState s
      \<and> emitted (updateAuthState s) = emitted s)
   \<and> (lookup (cancelables s) c = Some cp \<and> isCanceled cp \<longrightarrow>
      authState (getTokens_then c accessTok idTok s) = authState s
      \<and> emitted (getTokens_then c accessTok idTok s) = emitted s
      \<and> authState (isAuthenticated_then c custom s) = authState s
      \<and> emitted (isAuthenticated_then c custom s) = emitted s)
   \<and> (reachable s \<longrightarrow> canceledTimes s \<le> MAX_PROMISE_CANCEL_TIMES)
   \<and> (lookup (cancelables s) c = Some cp \<and> \<not> isCanceled cp
        \<and> at_stage cp = AwaitIsAuthenticated a i \<longrightarrow>
      canceledTimes (isAuthenticated_then c custom s) = 0)"
proof (intro conjI impI)
  assume "updateAuthStatePromise s = Some p \<and> MAX_PROMISE_CANCEL_TIMES \<le> canceledTimes s"
  then show "updateAuthState s = s" by (simp add: updateAuthState_dropped)
next
  assume a: "reachable s \<and> updateAuthStatePromise s = Some p
        \<and> canceledTimes s < MAX_PROMISE_CANCEL_TIMES"
  then obtain c0 where c0: "lookup (cancelables s) p = Some c0" "c_isPending c0" "\<not> isCanceled c0"
    by (auto elim: reachable_slot)
  from a have slot: "updateAuthStatePromise s = Some p"
    and lt: "canceledTimes s < MAX_PROMISE_CANCEL_TIMES" by simp_all
  note eq = updateAuthState_supersedes [OF slot lt c0]
  have len: "p < length (cancelables s)" using c0(1) by (rule lookup_Some_less)
  show "\<exists>cp. lookup (cancelables (updateAuthState s)) p = Some cp \<and> isCanceled cp"
    using len by (simp add: eq lookup_def nth_append)
  show "updateAuthStatePromise (updateAuthState s) = Some (length (cancelables s))"
    by (simp add: eq)
  show "p \<noteq> length (cancelables s)" using len by simp
  show "lookup (cancelables (updateAuthState s)) (length (cancelables s)) =
          Some \<lparr>isCanceled = False, c_isPending = True,
                has_predicate = opt_isAuthenticated s, at_stage = AwaitTokens\<rparr>"
    by (simp add: eq lookup_def nth_append)
  show "canceledTimes (updateAuthState s) = canceledTimes s + 1" by (simp add: eq)
  show "authState (updateAuthState s) = authState s" by (simp add: eq)
  show "emitted (updateAuthState s) = emitted s" by (simp add: eq)
next
  assume a: "lookup (cancelables s) c = Some cp \<and> isCanceled cp"
  then show "authState (getTokens_then c accessTok idTok s) = authState s"
    and "emitted (getTokens_then c accessTok idTok s) = emitted s"
    and "authState (isAuthenticated_then c custom s) = authState s"
    and "emitted (isAuthenticated_then c custom s) = emitted s"
    by (simp_all add: getTokens_then_canceled isAuthenticated_then_canceled)
next
  assume "reachable s"
  then show "canceledTimes s \<le> MAX_PROMISE_CANCEL_TIMES"
    using reachable_inv by (simp add: pending_inv_def)
next
  assume "lookup (cancelables s) c = Some cp \<and> \<not> isCanceled cp
        \<and> at_stage cp = AwaitIsAuthenticated a i"
  then show "canceledTimes (isAuthenticated_then c custom s) = 0"
    by (simp add: isAuthenticated_then_live)
qed

lemma both_stored_sdk_facts:
  "constructed both_stored_sdk"
  "storage both_stored_sdk ''accessToken'' = Some expired_access_token"
  "emitted both_stored_sdk = []"
  "clock_now both_stored_sdk = 0"
  "expireEarlySeconds both_stored_sdk = 30"
  "opt_isAuthenticated both_stored_sdk = False"
  by (simp_all add: both_stored_sdk_def stored_sdk_def new_sdk_def example_id_token_def
      expired_access_token_def tm_defs truthy_array_def truthy_expires_def to_number_def truthy_str_def
      isIDToken_def isAccessToken_def Let_def constructed_def)

lemma updating_sdk_eq:
  "updating_sdk = both_stored_sdk\<lparr>cancelables :=
       [\<lparr>isCanceled = False, c_isPending = True, has_predicate = False, at_stage = AwaitTokens\<rparr>],
     updateAuthStatePromise := Some 0\<rparr>"
  using both_stored_sdk_facts
  by (simp add: updating_sdk_def updateAuthState_idle constructed_def)

lemma updating_sdk_facts:
  "lookup (cancelables updating_sdk) 0 =
     Some \<lparr>isCanceled = False, c_isPending = True, has_predicate = False, at_stage = AwaitTokens\<rparr>"
  "updateAuthStatePromise updating_sdk = Some 0"
  "canceledTimes updating_sdk = 0"
  "cancelables updating_sdk =
     [\<lparr>isCanceled = False, c_isPending = True, has_predicate = False, at_stage = AwaitTokens\<rparr>]"
  "hasExpired updating_sdk expired_access_token"
  "\<not> hasExpired updating_sdk example_id_token"
  "storage updating_sdk ''accessToken'' = Some expired_access_token"
  "emitted updating_sdk = []"
  "authState updating_sdk = DEFAULT_AUTH_STATE"
  "opt_isAuthenticated updating_sdk = False"
  "reachable updating_sdk"
  using both_stored_sdk_facts
  by (simp_all add: updating_sdk_eq lookup_def hasExpired_def getExpireTime_def to_number_def
      expired_access_token_def example_id_token_def constructed_def
      reachable.update [OF reachable.start, of both_stored_sdk, folded updating_sdk_def, unfolded updating_sdk_eq])

lemma storm_sdk_facts:
  "updateAuthStatePromise storm_sdk = Some 10"
  "canceledTimes storm_sdk = 10"
  using both_stored_sdk_facts
  by (simp_all add: storm_sdk_def eval_nat_numeral updateAuthState_def cancel_def lookup_def
      constructed_def MAX_PROMISE_CANCEL_TIMES_def Let_def nth_append)

lemma reachable_funpow: "reachable s \<Longrightarrow> reachable ((updateAuthState ^^ n) s)"
  by (induction n) (simp_all add: reachable.update)

lemma storm_sdk_reachable: "reachable storm_sdk"
  using both_stored_sdk_facts(1) by (simp add: storm_sdk_def reachable_funpow reachable.start)

lemma read_sdk_facts:
  "lookup (cancelables read_sdk) 0 =
     Some \<lparr>isCanceled = False, c_isPending = True, has_predicate = False,
           at_stage = AwaitIsAuthenticated None (Some example_id_token)\<rparr>"
  "emitted read_sdk = []"
  "storage read_sdk ''accessToken'' = Some expired_access_token"
  using updating_sdk_facts
  by (simp_all add: read_sdk_def getTokens_then_def demote_def lookup_def)

text \<open>
  An expired access token and a live ID token: the snapshot has no access token, is not
  authenticated, and the expired token is still in the store.
\<close>
theorem recomputation_completes_witness:
  "updateAuthStatePromise both_stored_sdk = None
   \<and> updateAuthStatePromise updating_sdk = Some 0
   \<and> lookup (cancelables updating_sdk) 0 =
     Some \<lparr>isCanceled = False, c_isPending = True, has_predicate = False, at_stage = AwaitTokens\<rparr>
   \<and> hasExpired updating_sdk expired_access_token
   \<and> lookup (cancelables read_sdk) 0 =
     Some \<lparr>isCanceled = False, c_isPending = True, has_predicate = False,
           at_stage = AwaitIsAuthenticated None (Some example_id_token)\<rparr>
   \<and> authState (isAuthenticated_then 0 True read_sdk) =
     \<lparr>isPending = False, isAuthenticated = False, as_idToken = Some example_id_token,
      as_accessToken = None\<rparr>
   \<and> emitted (isAuthenticated_then 0 True read_sdk) =
     [AuthStateChange \<lparr>isPending = False, isAuthenticated = False,
        as_idToken = Some example_id_token, as_accessToken = None\<rparr>]
   \<and> storage (isAuthenticated_then 0 True read_sdk) ''accessToken'' = Some expired_access_token
   \<and> updateAuthStatePromise (isAuthenticated_then 0 True read_sdk) = None"
  using recomputation_completes [where s = both_stored_sdk and c = 0
      and cp = "\<lparr>isCanceled = False, c_isPending = True, has_predicate = False,
        at_stage = AwaitTokens\<rparr>"
      and a = None and i = "Some example_id_token" and custom = True]
    recomputation_completes [where s = updating_sdk and c = 0
      and cp = "\<lparr>isCanceled = False, c_isPending = True, has_predicate = False,
        at_stage = AwaitTokens\<rparr>"
      and accessTok = "Some expired_access_token" and idTok = "Some example_id_token"
      and t = expired_access_token and a = None and i = "Some example_id_token"
      and custom = True]
    recomputation_completes [where s = read_sdk and c = 0
      and cp = "\<lparr>isCanceled = False, c_isPending = True, has_predicate = False,
        at_stage = AwaitIsAuthenticated None (Some example_id_token)\<rparr>"
      and accessTok = "Some expired_access_token" and idTok = "Some example_id_token"
      and t = expired_access_token and a = None and i = "Some example_id_token"
      and custom = True]
    both_stored_sdk_facts updating_sdk_facts read_sdk_facts
  by (simp add: constructed_def)

lemma superseded_sdk_facts:
  "lookup (cancelables superseded_sdk) 0 =
     Some \<lparr>isCanceled = True, c_isPending = True, has_predicate = False, at_stage = AwaitTokens\<rparr>"
  "lookup (cancelables superseded_sdk) 1 =
     Some \<lparr>isCanceled = False, c_isPending = True, has_predicate = False, at_stage = AwaitTokens\<rparr>"
  "updateAuthStatePromise superseded_sdk = Some 1"
  "canceledTimes superseded_sdk = 1"
  "emitted superseded_sdk = []"
  "authState superseded_sdk = DEFAULT_AUTH_STATE"
  using updating_sdk_facts
  by (simp_all add: superseded_sdk_def updateAuthState_def cancel_def lookup_def
      MAX_PROMISE_CANCEL_TIMES_def Let_def)

text \<open>
  Eleven calls in a row reach the ceiling and the twelfth is dropped; a second call cancels the
  first recomputation, which then emits nothing; a completed recomputation resets the counter.
\<close>
theorem updateAuthState_cancellation_witness:
  "updateAuthStatePromise storm_sdk = Some 10
   \<and> MAX_PROMISE_CANCEL_TIMES \<le> canceledTimes storm_sdk
   \<and> updateAuthState storm_sdk = storm_sdk
   \<and> reachable storm_sdk
   \<and> canceledTimes storm_sdk \<le> MAX_PROMISE_CANCEL_TIMES
   \<and> reachable updating_sdk
   \<and> updateAuthStatePromise updating_sdk = Some 0
   \<and> canceledTimes updating_sdk < MAX_PROMISE_CANCEL_TIMES
   \<and> updateAuthStatePromise (updateAuthState updating_sdk) = Some 1
   \<and> canceledTimes (updateAuthState updating_sdk) = 1
   \<and> lookup (cancelables superseded_sdk) 0 =
       Some \<lparr>isCanceled = True, c_isPending = True, has_predicate = False,
             at_stage = AwaitTokens\<rparr>
   \<and> authState (getTokens_then 0 None (Some example_id_token) superseded_sdk)
       = DEFAULT_AUTH_STATE
   \<and> emitted (getTokens_then 0 None (Some example_id_token) superseded_sdk) = []
   \<and> lookup (cancelables read_sdk) 0 =
       Some \<lparr>isCanceled = False, c_isPending = True, has_predicate = False,
             at_stage = AwaitIsAuthenticated None (Some example_id_token)\<rparr>
   \<and> canceledTimes (isAuthenticated_then 0 True read_sdk) = 0"
  using updateAuthState_cancellation [of storm_sdk 10 0
      "\<lparr>isCanceled = True, c_isPending = True, has_predicate = False, at_stage = AwaitTokens\<rparr>"
      None "Some example_id_token" True None "Some example_id_token"]
    updateAuthState_cancellation [of updating_sdk 0 0
      "\<lparr>isCanceled = True, c_isPending = True, has_predicate = False, at_stage = AwaitTokens\<rparr>"
      None "Some example_id_token" True None "Some example_id_token"]
    updateAuthState_cancellation [of superseded_sdk 1 0
      "\<lparr>isCanceled = True, c_isPending = True, has_predicate = False, at_stage = AwaitTokens\<rparr>"
      None "Some example_id_token" True None "Some example_id_token"]
    updateAuthState_cancellation [of read_sdk 0 0
      "\<lparr>isCanceled = False, c_isPending = True, has_predicate = False,
        at_stage = AwaitIsAuthenticated None (Some example_id_token)\<rparr>"
      None "Some example_id_token" True None "Some example_id_token"]
    storm_sdk_facts storm_sdk_reachable updating_sdk_facts superseded_sdk_facts read_sdk_facts
  by (simp add: MAX_PROMISE_CANCEL_TIMES_def)

section \<open>Properties of the browser client\<close>

lemma clear_storage: "storage (clear s) = Map.empty"
  by (simp add: clear_def clearExpireEventTimeoutAll_def)

lemma closeSession_state:
  "snd (closeSession close_result s) =
     (clear s)\<lparr>calls := calls s @ [TokenManager_clear, Session_close]\<rparr>"
  by (simp add: closeSession_def tokenManager_clear_def clear_def clearExpireEventTimeoutAll_def
      Let_def split: option.splits)

lemma closeSession_result:
  "fst (closeSession close_result s) =
     (case close_result of
        None \<Rightarrow> Inr ()
      | Some e \<Rightarrow>
          if err_name e = ''AuthApiError'' \<and> errorCode e = Some ''E0000007'' then Inr ()
          else Inl e)"
  by (simp add: closeSession_def Let_def split: option.splits)

text \<open>
  Claim C8: \<^verbatim>\<open>closeSession\<close> clears the stored tokens and their timers, then calls
  \<^verbatim>\<open>session.close\<close>; it resolves exactly when that call succeeds or rejects with the error
  named \<^verbatim>\<open>AuthApiError\<close> whose code is \<^verbatim>\<open>E0000007\<close> (resource not found), and rejects with any
  other error as it is.
\<close>
theorem closeSession_absorbs_not_found:
  "storage (snd (closeSession close_result s)) = Map.empty
   \<and> expireTimeouts (snd (closeSession close_result s)) = Map.empty
   \<and> calls (snd (closeSession close_result s)) = calls s @ [TokenManager_clear, Session_close]
   \<and> ((fst (closeSession close_result s) = Inr ()) =
        (close_result = None
         \<or> (\<exists>e. close_result = Some e \<and> err_name e = ''AuthApiError''
                 \<and> errorCode e = Some ''E0000007'')))
   \<and> (close_result = Some e
        \<and> \<not> (err_name e = ''AuthApiError'' \<and> errorCode e = Some ''E0000007'') \<longrightarrow>
      fst (closeSession close_result s) = Inl e)"
  by (auto simp add: closeSession_state closeSession_result clear_def
      clearExpireEventTimeoutAll_def split: option.splits)

lemma revokeAccessToken_given:
  "revokeAccessToken (Some t) revoke_result s =
     ((case revoke_result of None \<Rightarrow> Inr () | Some e \<Rightarrow> Inl e),
      s\<lparr>calls := calls s @ [Token_revoke t]\<rparr>)"
  by (simp add: revokeAccessToken_def)

text \<open>
  Claim C10: with a token passed, \<^verbatim>\<open>revokeAccessToken\<close> calls \<^verbatim>\<open>token.revoke\<close> with it and
  nothing else: the instance is the one it was, with that one call logged. Without an
  argument it reads the stored access token, removes it, and revokes it if there was one.
\<close>
theorem revokeAccessToken_bypasses_store:
  "revokeAccessToken (Some t) revoke_result s =
     ((case revoke_result of None \<Rightarrow> Inr () | Some e \<Rightarrow> Inl e),
      s\<lparr>calls := calls s @ [Token_revoke t]\<rparr>)
   \<and> calls (snd (revokeAccessToken None revoke_result s)) =
       calls s @
       [TokenManager_get ACCESS_TOKEN_STORAGE_KEY, TokenManager_remove ACCESS_TOKEN_STORAGE_KEY] @
       (case storage s ACCESS_TOKEN_STORAGE_KEY of None \<Rightarrow> [] | Some a \<Rightarrow> [Token_revoke a])
   \<and> storage (snd (revokeAccessToken None revoke_result s)) =
       (storage s)(ACCESS_TOKEN_STORAGE_KEY := None)"
  by (simp add: revokeAccessToken_def tokenManager_get_def tokenManager_remove_def tm_defs
      Let_def split: option.splits)

lemma logoutUri_spec:
  "logoutUri logoutUrl t uri st =
     spec_logoutUri logoutUrl (case idToken t of None \<Rightarrow> ''undefined'' | Some h \<Rightarrow> h) uri
       (if st = Some [] then None else st)"
  by (simp add: logoutUri_def spec_logoutUri_def Let_def split: option.splits)

lemma tokenManager_get_eq:
  "tokenManager_get key s = (storage s key, s\<lparr>calls := calls s @ [TokenManager_get key]\<rparr>)"
  by (simp add: tokenManager_get_def get_def)

lemma signOut_access_resolved:
  "(case so_accessToken options of
      Omitted \<Rightarrow>
        if so_revokeAccessToken options \<noteq> Some False
        then tokenManager_get ACCESS_TOKEN_STORAGE_KEY s1 else (None, s1)
    | GivenFalse \<Rightarrow> (None, s1)
    | Given t \<Rightarrow> (Some t, s1)) =
   ((case so_accessToken options of
      Omitted \<Rightarrow> if so_revokeAccessToken options \<noteq> Some False
                 then storage s1 ACCESS_TOKEN_STORAGE_KEY else None
    | GivenFalse \<Rightarrow> None
    | Given a \<Rightarrow> Some a),
    s1\<lparr>calls := calls s1 @
      (if so_accessToken options = Omitted \<and> so_revokeAccessToken options \<noteq> Some False
       then [TokenManager_get ACCESS_TOKEN_STORAGE_KEY] else [])\<rparr>)"
  by (cases "so_accessToken options") (simp_all add: tokenManager_get_eq)

lemma signOut_id_resolved:
  "(case so_idToken options of
      Omitted \<Rightarrow> tokenManager_get ID_TOKEN_STORAGE_KEY s
    | GivenFalse \<Rightarrow> (None, s)
    | Given t \<Rightarrow> (Some t, s)) =
   ((case so_idToken options of
      Omitted \<Rightarrow> storage s ID_TOKEN_STORAGE_KEY
    | GivenFalse \<Rightarrow> None
    | Given x \<Rightarrow> Some x),
    s\<lparr>calls := calls s @
      (if so_idToken options = Omitted then [TokenManager_get ID_TOKEN_STORAGE_KEY] else [])\<rparr>)"
  by (cases "so_idToken options") (simp_all add: tokenManager_get_eq)

lemma clear_calls: "clear (s\<lparr>calls := c\<rparr>) = (clear s)\<lparr>calls := c\<rparr>"
  by (simp add: clear_def clearExpireEventTimeoutAll_def cong del: if_weak_cong)

lemma clear_calls_read [simp]: "calls (clear s) = calls s"
  by (simp add: clear_def clearExpireEventTimeoutAll_def)

lemma tokenManager_clear_folded:
  "tokenManager_clear s = (clear s)\<lparr>calls := calls s @ [TokenManager_clear]\<rparr>"
  by (simp add: tokenManager_clear_def Let_def)

lemma signOut_with_idToken:
  assumes idt: "(case so_idToken options of
              Omitted \<Rightarrow> storage s ID_TOKEN_STORAGE_KEY
            | GivenFalse \<Rightarrow> None
            | Given x \<Rightarrow> Some x) = Some t"
    and rv: "revoked =
           (if so_revokeAccessToken options = Some False then None
            else (case so_accessToken options of
                    Omitted \<Rightarrow> storage s ACCESS_TOKEN_STORAGE_KEY
                  | GivenFalse \<Rightarrow> None
                  | Given a \<Rightarrow> Some a))"
    and uri: "uri = or_else (so_postLogoutRedirectUri options)
                 (or_else (opt_postLogoutRedirectUri s) (origin window))"
  shows "signOut window logoutUrl options revoke_result close_result s =
    ((if revoked = None then Inr ()
      else (case revoke_result of None \<Rightarrow> Inr () | Some e \<Rightarrow> Inl e)),
     (clear s)\<lparr>calls := calls s @
        (if so_idToken options = Omitted then [TokenManager_get ID_TOKEN_STORAGE_KEY] else [])
        @ (if so_accessToken options = Omitted \<and> so_revokeAccessToken options \<noteq> Some False
           then [TokenManager_get ACCESS_TOKEN_STORAGE_KEY] else [])
        @ [TokenManager_clear]
        @ (case revoked of None \<Rightarrow> [] | Some a \<Rightarrow> [Token_revoke a])
        @ (if revoked \<noteq> None \<and> revoke_result \<noteq> None then []
           else [Location_assign (logoutUri logoutUrl t uri (so_state options))])\<rparr>)"
proof -
  have idc: "so_idToken options = Given t
      \<or> (so_idToken options = Omitted \<and> storage s ID_TOKEN_STORAGE_KEY = Some t)"
    using idt by (cases "so_idToken options") simp_all
  show ?thesis
    using idc rv uri
    by (cases "so_accessToken options"; cases "so_revokeAccessToken options = Some False";
        cases "storage s ACCESS_TOKEN_STORAGE_KEY"; cases revoke_result)
       (auto simp add: signOut_def tokenManager_get_eq tokenManager_clear_folded clear_calls
          revokeAccessToken_given Let_def)
qed

text \<open>
  Claim C7, as amended: when \<^verbatim>\<open>signOut\<close> resolves an ID token, the calls it makes are the reads
  of the store, the clearing of the tokens, the revocation if an access token was resolved, and,
  unless the revocation rejects, one redirect to the logout URL with the ID token hint and the
  redirect URI, followed by the state parameter exactly when a non-empty state was supplied.
  No session is closed, the tokens are cleared before the revocation, and a rejected revocation
  rejects \<^verbatim>\<open>signOut\<close> without any navigation.
\<close>
theorem signOut_redirect_with_idToken:
  "(case so_idToken options of
      Omitted \<Rightarrow> storage s ID_TOKEN_STORAGE_KEY
    | GivenFalse \<Rightarrow> None
    | Given x \<Rightarrow> Some x) = Some t
   \<and> revoked =
       (if so_revokeAccessToken options = Some False then None
        else (case so_accessToken options of
                Omitted \<Rightarrow> storage s ACCESS_TOKEN_STORAGE_KEY
              | GivenFalse \<Rightarrow> None
              | Given a \<Rightarrow> Some a))
   \<and> uri = or_else (so_postLogoutRedirectUri options)
             (or_else (opt_postLogoutRedirectUri s) (origin window))
   \<and> made = drop (length (calls s))
              (calls (snd (signOut window logoutUrl options revoke_result close_result s)))
   \<longrightarrow>
   made =
     (if so_idToken options = Omitted then [TokenManager_get ID_TOKEN_STORAGE_KEY] else [])
     @ (if so_accessToken options = Omitted \<and> so_revokeAccessToken options \<noteq> Some False
        then [TokenManager_get ACCESS_TOKEN_STORAGE_KEY] else [])
     @ [TokenManager_clear]
     @ (case revoked of None \<Rightarrow> [] | Some a \<Rightarrow> [Token_revoke a])
     @ (if revoked \<noteq> None \<and> revoke_result \<noteq> None then []
        else [Location_assign
               (logoutUrl @ ''?id_token_hint='' @
                encodeURIComponent (case idToken t of None \<Rightarrow> ''undefined'' | Some h \<Rightarrow> h) @
                ''&post_logout_redirect_uri='' @ encodeURIComponent uri @
                (case so_state options of
                   None \<Rightarrow> []
                 | Some st \<Rightarrow> if st = [] then [] else ''&state='' @ encodeURIComponent st))])
   \<and> Session_close \<notin> set made
   \<and> calls (snd (signOut window logoutUrl options revoke_result close_result s)) = calls s @ made
   \<and> storage (snd (signOut window logoutUrl options revoke_result close_result s)) = Map.empty
   \<and> fst (signOut window logoutUrl options revoke_result close_result s) =
       (if revoked = None then Inr ()
        else (case revoke_result of None \<Rightarrow> Inr () | Some e \<Rightarrow> Inl e))"
proof (intro impI)
  assume a: "(case so_idToken options of
      Omitted \<Rightarrow> storage s ID_TOKEN_STORAGE_KEY
    | GivenFalse \<Rightarrow> None
    | Given x \<Rightarrow> Some x) = Some t
   \<and> revoked =
       (if so_revokeAccessToken options = Some False then None
        else (case so_accessToken options of
                Omitted \<Rightarrow> storage s ACCESS_TOKEN_STORAGE_KEY
              | GivenFalse \<Rightarrow> None
              | Given a \<Rightarrow> Some a))
   \<and> uri = or_else (so_postLogoutRedirectUri options)
             (or_else (opt_postLogoutRedirectUri s) (origin window))
   \<and> made = drop (length (calls s))
              (calls (snd (signOut window logoutUrl options revoke_result close_result s)))"
  then have idt: "(case so_idToken options of
      Omitted \<Rightarrow> storage s ID_TOKEN_STORAGE_KEY
    | GivenFalse \<Rightarrow> None
    | Given x \<Rightarrow> Some x) = Some t"
    and rv: "revoked =
       (if so_revokeAccessToken options = Some False then None
        else (case so_accessToken options of
                Omitted \<Rightarrow> storage s ACCESS_TOKEN_STORAGE_KEY
              | GivenFalse \<Rightarrow> None
              | Given a \<Rightarrow> Some a))"
    and uri: "uri = or_else (so_postLogoutRedirectUri options)
             (or_else (opt_postLogoutRedirectUri s) (origin window))"
    and made: "made = drop (length (calls s))
              (calls (snd (signOut window logoutUrl options revoke_result close_result s)))"
    by simp_all
  note eq = signOut_with_idToken [OF idt rv uri, of logoutUrl revoke_result close_result]
  have url: "logoutUri logoutUrl t uri (so_state options) =
      logoutUrl @ ''?id_token_hint='' @
      encodeURIComponent (case idToken t of None \<Rightarrow> ''undefined'' | Some h \<Rightarrow> h) @
      ''&post_logout_redirect_uri='' @ encodeURIComponent uri @
      (case so_state options of
         None \<Rightarrow> []
       | Some st \<Rightarrow> if st = [] then [] else ''&state='' @ encodeURIComponent st)"
    by (simp add: logoutUri_def Let_def split: option.splits)
  have m: "made =
     (if so_idToken options = Omitted then [TokenManager_get ID_TOKEN_STORAGE_KEY] else [])
     @ (if so_accessToken options = Omitted \<and> so_revokeAccessToken options \<noteq> Some False
        then [TokenManager_get ACCESS_TOKEN_STORAGE_KEY] else [])
     @ [TokenManager_clear]
     @ (case revoked of None \<Rightarrow> [] | Some a \<Rightarrow> [Token_revoke a])
     @ (if revoked \<noteq> None \<and> revoke_result \<noteq> None then []
        else [Location_assign (logoutUri logoutUrl t uri (so_state options))])"
    unfolding made eq by simp
  have c: "calls (snd (signOut window logoutUrl options revoke_result close_result s)) =
      calls s @ made"
    unfolding m eq by simp
  have nc: "Session_close \<notin> set made"
    unfolding m by (simp split: option.splits)
  have st: "storage (snd (signOut window logoutUrl options revoke_result close_result s)) = Map.empty"
    unfolding eq by (simp add: clear_storage)
  have r: "fst (signOut window logoutUrl options revoke_result close_result s) =
       (if revoked = None then Inr ()
        else (case revoke_result of None \<Rightarrow> Inr () | Some e \<Rightarrow> Inl e))"
    unfolding eq by simp
  show "made =
     (if so_idToken options = Omitted then [TokenManager_get ID_TOKEN_STORAGE_KEY] else [])
     @ (if so_accessToken options = Omitted \<and> so_revokeAccessToken options \<noteq> Some False
        then [TokenManager_get ACCESS_TOKEN_STORAGE_KEY] else [])
     @ [TokenManager_clear]
     @ (case revoked of None \<Rightarrow> [] | Some a \<Rightarrow> [Token_revoke a])
     @ (if revoked \<noteq> None \<and> revoke_result \<noteq> None then []
        else [Location_assign
               (logoutUrl @ ''?id_token_hint='' @
                encodeURIComponent (case idToken t of None \<Rightarrow> ''undefined'' | Some h \<Rightarrow> h) @
                ''&post_logout_redirect_uri='' @ encodeURIComponent uri @
                (case so_state options of
                   None \<Rightarrow> []
                 | Some st \<Rightarrow> if st = [] then [] else ''&state='' @ encodeURIComponent st))])
   \<and> Session_close \<notin> set made
   \<and> calls (snd (signOut window logoutUrl options revoke_result close_result s)) = calls s @ made
   \<and> storage (snd (signOut window logoutUrl options revoke_result close_result s)) = Map.empty
   \<and> fst (signOut window logoutUrl options revoke_result close_result s) =
       (if revoked = None then Inr ()
        else (case revoke_result of None \<Rightarrow> Inr () | Some e \<Rightarrow> Inl e))"
    using m c nc st r unfolding url by blast
qed

lemma signed_in_sdk_facts:
  "storage signed_in_sdk ID_TOKEN_STORAGE_KEY = Some example_id_token"
  "storage signed_in_sdk ACCESS_TOKEN_STORAGE_KEY = Some example_access_token"
  "calls signed_in_sdk = []"
  "opt_postLogoutRedirectUri signed_in_sdk = None"
  by (simp_all add: signed_in_sdk_def stored_sdk_def new_sdk_def example_id_token_def
      example_access_token_def tm_defs truthy_array_def truthy_expires_def to_number_def truthy_str_def
      isIDToken_def isAccessToken_def Let_def ID_TOKEN_STORAGE_KEY_def
      ACCESS_TOKEN_STORAGE_KEY_def)

lemmas encode_defs = encodeURIComponent_def encode_byte_def uri_unreserved_def hex_digit_def

lemma encoded_origin:
  "encodeURIComponent ''https://somesite.local'' = ''https%3A%2F%2Fsomesite.local''"
  by (simp add: encode_defs)

lemma encoded_state: "encodeURIComponent ''foo=bar&yo=me'' = ''foo%3Dbar%26yo%3Dme''"
  by (simp add: encode_defs)

lemma encoded_hint: "encodeURIComponent ''abc'' = ''abc''"
  by (simp add: encode_defs)

lemma encoded_empty: "encodeURIComponent [] = []"
  by (simp add: encodeURIComponent_def)

text \<open>
  The state of the test suite is appended, encoded; a failing revocation stops before the
  redirect.
\<close>
theorem signOut_redirect_with_idToken_witness:
  "storage signed_in_sdk ID_TOKEN_STORAGE_KEY = Some example_id_token
   \<and> calls (snd (signOut test_location test_logoutUrl state_options None None signed_in_sdk)) =
       [TokenManager_get ID_TOKEN_STORAGE_KEY, TokenManager_get ACCESS_TOKEN_STORAGE_KEY,
        TokenManager_clear, Token_revoke example_access_token,
        Location_assign
          (test_logoutUrl @ ''?id_token_hint=abc'' @
           ''&post_logout_redirect_uri=https%3A%2F%2Fsomesite.local'' @
           ''&state=foo%3Dbar%26yo%3Dme'')]
   \<and> fst (signOut test_location test_logoutUrl state_options None None signed_in_sdk) = Inr ()
   \<and> calls (snd (signOut test_location test_logoutUrl default_options (Some network_error) None
        signed_in_sdk)) =
       [TokenManager_get ID_TOKEN_STORAGE_KEY, TokenManager_get ACCESS_TOKEN_STORAGE_KEY,
        TokenManager_clear, Token_revoke example_access_token]
   \<and> fst (signOut test_location test_logoutUrl default_options (Some network_error) None
        signed_in_sdk) = Inl network_error"
  using signOut_redirect_with_idToken
      [where options = state_options and s = signed_in_sdk and t = example_id_token
         and revoked = "Some example_access_token" and uri = "''https://somesite.local''"
         and window = test_location and logoutUrl = test_logoutUrl and revoke_result = None
         and close_result = None
         and made = "drop (length (calls signed_in_sdk))
           (calls (snd (signOut test_location test_logoutUrl state_options None None
              signed_in_sdk)))"]
    signOut_redirect_with_idToken
      [where options = default_options and s = signed_in_sdk and t = example_id_token
         and revoked = "Some example_access_token" and uri = "''https://somesite.local''"
         and window = test_location and logoutUrl = test_logoutUrl
         and revoke_result = "Some network_error" and close_result = None
         and made = "drop (length (calls signed_in_sdk))
           (calls (snd (signOut test_location test_logoutUrl default_options
              (Some network_error) None signed_in_sdk)))"]
    signed_in_sdk_facts
  by (simp add: state_options_def default_options_def test_location_def or_else_def
      example_id_token_def encoded_origin encoded_state encoded_hint)

text \<open>
  Claim C7 as stated appends the state parameter whenever a state option is supplied. With the
  empty string as state, the code redirects to the URL without it.
\<close>
theorem signOut_empty_state_counterexample:
  "so_state empty_state_options = Some []
   \<and> storage signed_in_sdk ID_TOKEN_STORAGE_KEY = Some example_id_token
   \<and> calls (snd (signOut test_location test_logoutUrl empty_state_options None None
        signed_in_sdk)) =
       [TokenManager_get ID_TOKEN_STORAGE_KEY, TokenManager_get ACCESS_TOKEN_STORAGE_KEY,
        TokenManager_clear, Token_revoke example_access_token,
        Location_assign
          (test_logoutUrl @ ''?id_token_hint=abc'' @
           ''&post_logout_redirect_uri=https%3A%2F%2Fsomesite.local'')]
   \<and> spec_logoutUri test_logoutUrl ''abc'' ''https://somesite.local''
        (so_state empty_state_options) =
       test_logoutUrl @ ''?id_token_hint=abc'' @
       ''&post_logout_redirect_uri=https%3A%2F%2Fsomesite.local'' @ ''&state=''
   \<and> Location_assign
        (spec_logoutUri test_logoutUrl ''abc'' ''https://somesite.local''
          (so_state empty_state_options))
       \<notin> set (calls (snd (signOut test_location test_logoutUrl empty_state_options None None
              signed_in_sdk)))"
proof -
  have idt: "(case so_idToken empty_state_options of
      Omitted \<Rightarrow> storage signed_in_sdk ID_TOKEN_STORAGE_KEY
    | GivenFalse \<Rightarrow> None
    | Given x \<Rightarrow> Some x) = Some example_id_token"
    using signed_in_sdk_facts by (simp add: empty_state_options_def default_options_def)
  have rv: "Some example_access_token =
       (if so_revokeAccessToken empty_state_options = Some False then None
        else (case so_accessToken empty_state_options of
                Omitted \<Rightarrow> storage signed_in_sdk ACCESS_TOKEN_STORAGE_KEY
              | GivenFalse \<Rightarrow> None
              | Given a \<Rightarrow> Some a))"
    using signed_in_sdk_facts by (simp add: empty_state_options_def default_options_def)
  have uri: "''https://somesite.local'' = or_else (so_postLogoutRedirectUri empty_state_options)
             (or_else (opt_postLogoutRedirectUri signed_in_sdk) (origin test_location))"
    using signed_in_sdk_facts
    by (simp add: empty_state_options_def default_options_def or_else_def test_location_def)
  note eq = signOut_with_idToken [OF idt rv uri, of test_logoutUrl None None]
  show ?thesis
    unfolding eq
    using signed_in_sdk_facts
    by (simp add: empty_state_options_def default_options_def logoutUri_def
        spec_logoutUri_def example_id_token_def encoded_origin encoded_hint encoded_empty)
qed

text \<open>The not-found error is absorbed, a network failure is passed on.\<close>
theorem closeSession_absorbs_not_found_witness:
  "fst (closeSession (Some not_found_error) signed_in_sdk) = Inr ()
   \<and> fst (closeSession None signed_in_sdk) = Inr ()
   \<and> err_name network_error \<noteq> ''AuthApiError''
   \<and> fst (closeSession (Some network_error) signed_in_sdk) = Inl network_error
   \<and> calls (snd (closeSession (Some network_error) signed_in_sdk)) =
       [TokenManager_clear, Session_close]
   \<and> storage (snd (closeSession (Some network_error) signed_in_sdk)) ID_TOKEN_STORAGE_KEY = None"
  using closeSession_absorbs_not_found [of "Some not_found_error" signed_in_sdk not_found_error]
    closeSession_absorbs_not_found [of None signed_in_sdk not_found_error]
    closeSession_absorbs_not_found [of "Some network_error" signed_in_sdk network_error]
    signed_in_sdk_facts
  by (simp add: not_found_error_def network_error_def)

text \<open>A passed token leaves the stored access token in place; no argument removes it.\<close>
theorem revokeAccessToken_bypasses_store_witness:
  "revokeAccessToken (Some fresh_id_token) None signed_in_sdk =
     (Inr (), signed_in_sdk\<lparr>calls := [Token_revoke fresh_id_token]\<rparr>)
   \<and> calls (snd (revokeAccessToken None None signed_in_sdk)) =
       [TokenManager_get ACCESS_TOKEN_STORAGE_KEY, TokenManager_remove ACCESS_TOKEN_STORAGE_KEY,
        Token_revoke example_access_token]
   \<and> storage (snd (revokeAccessToken None None signed_in_sdk)) ACCESS_TOKEN_STORAGE_KEY = None
   \<and> storage (snd (revokeAccessToken (Some fresh_id_token) None signed_in_sdk))
        ACCESS_TOKEN_STORAGE_KEY = Some example_access_token"
  using revokeAccessToken_bypasses_store [of fresh_id_token None signed_in_sdk]
    signed_in_sdk_facts
  by simp

end
